theory Spec2Isabelle
  imports Complex_Main
begin

section \<open>Numbers\<close>

text \<open>
  The bot computes with JavaScript numbers. They are modelled as exact reals:
  comparisons, \<^verbatim>\<open>Math.min\<close> and \<^verbatim>\<open>Math.max\<close> agree with the
  reals on every finite number, while rounding and the infinities are outside the
  model, and so is \<^verbatim>\<open>NaN\<close> except where the earlier version of the loop makes
  one (see there). The expression \<^verbatim>\<open>x || d\<close> on a number yields \<^verbatim>\<open>d\<close>
  when \<^verbatim>\<open>x\<close> is missing or zero; \<open>orDefault\<close> is that operator on an optional
  number.
\<close>

definition orDefault :: "real option \<Rightarrow> real \<Rightarrow> real" where
  "orDefault x d = (case x of None \<Rightarrow> d | Some v \<Rightarrow> if v = 0 then d else v)"

section \<open>Portfolio settings (src/config/portfolio-settings.ts)\<close>

datatype Category = ada | stable | defi | ai | gaming | meme_coins | depin | other

fun TARGET_RATIOS :: "Category \<Rightarrow> real" where
  "TARGET_RATIOS ada = 0.20"
| "TARGET_RATIOS stable = 0.15"
| "TARGET_RATIOS defi = 0.15"
| "TARGET_RATIOS ai = 0.15"
| "TARGET_RATIOS gaming = 0.10"
| "TARGET_RATIOS meme_coins = 0.10"
| "TARGET_RATIOS depin = 0.10"
| "TARGET_RATIOS other = 0.05"

text \<open>
  \<^verbatim>\<open>TOKEN_POLICIES\<close>, one list per key, and \<^verbatim>\<open>classifyToken\<close>.
  \<open>str_includes s sub\<close> is \<^verbatim>\<open>s.includes(sub)\<close>: \<open>sub\<close> occurs in \<open>s\<close>.
\<close>

definition TOKEN_POLICIES_stable :: "string list" where
  "TOKEN_POLICIES_stable = [''policy1'', ''policy2'']"

definition TOKEN_POLICIES_defi :: "string list" where
  "TOKEN_POLICIES_defi = [''policy3'']"

definition TOKEN_POLICIES_governance :: "string list" where
  "TOKEN_POLICIES_governance = [''policy4'']"

definition TOKEN_POLICIES_other :: "string list" where
  "TOKEN_POLICIES_other = []"

fun startsWith :: "string \<Rightarrow> string \<Rightarrow> bool" where
  "startsWith s [] = True"
| "startsWith [] (c # cs) = False"
| "startsWith (x # xs) (c # cs) = (x = c \<and> startsWith xs cs)"

fun str_includes :: "string \<Rightarrow> string \<Rightarrow> bool" where
  "str_includes [] sub = (sub = [])"
| "str_includes (x # xs) sub = (if startsWith (x # xs) sub then True else str_includes xs sub)"

definition classifyToken :: "string \<Rightarrow> Category" where
  "classifyToken u =
     (if list_ex (\<lambda>id. str_includes u id) TOKEN_POLICIES_stable then stable
      else if list_ex (\<lambda>id. str_includes u id) TOKEN_POLICIES_defi then defi
      else other)"

text \<open>A category is a string in the source; this is the string of each.\<close>

fun categoryName :: "Category \<Rightarrow> string" where
  "categoryName ada = ''ada''"
| "categoryName stable = ''stable''"
| "categoryName defi = ''defi''"
| "categoryName ai = ''ai''"
| "categoryName gaming = ''gaming''"
| "categoryName meme_coins = ''meme_coins''"
| "categoryName depin = ''depin''"
| "categoryName other = ''other''"

text \<open>The bot imports the table under the name \<^verbatim>\<open>targetRatios\<close>.\<close>

abbreviation targetRatios :: "Category \<Rightarrow> real" where
  "targetRatios \<equiv> TARGET_RATIOS"

section \<open>Portfolio logic: the position sizer\<close>

datatype Direction = buy | sell

text \<open>
  \<^verbatim>\<open>adjustTradeForPortfolio\<close>, branch by branch. The value 0 is the sizer's
  way of saying "skip this trade".
\<close>

definition adjustTradeForPortfolio ::
  "Direction \<Rightarrow> Category \<Rightarrow> real \<Rightarrow> real \<Rightarrow> real \<Rightarrow> real \<Rightarrow> real" where
  "adjustTradeForPortfolio direction category recommendedAda totalAdaValue
      currentCategoryValue userAdaBalance =
     (if direction = buy then
        (let maxAllowedCategory = targetRatios category * totalAdaValue;
             roomLeft = maxAllowedCategory - currentCategoryValue
         in if roomLeft \<le> 0 then 0
            else
              (let maxUserCanSpend = max 0 (userAdaBalance - 2);
                   finalAda = min recommendedAda (min roomLeft maxUserCanSpend)
               in if finalAda < 1 then 0 else finalAda))
      else recommendedAda)"

section \<open>Token lists (token-lists.ts)\<close>

record ProfitTargets =
  quick :: real
  medium :: real
  long :: real

text \<open>
  \<^verbatim>\<open>TokenConfig\<close>: every field marked \<^verbatim>\<open>?\<close> in the interface is an option.
  \<open>decimals\<close> counts decimal places, a natural number.
\<close>

record TokenConfig =
  unit :: string
  ticker :: string
  decimals :: "nat option"
  category :: Category
  minTradeSize :: "real option"
  maxTradeSize :: "real option"
  profitTargets :: "ProfitTargets option"
  stopLoss :: "real option"
  trailingStop :: "real option"
  maxHoldTime :: "real option"

definition TRADING_TOKENS :: "TokenConfig list" where
  "TRADING_TOKENS =
    [ \<lparr>unit = ''97bbb7db0baef89caefce61b8107ac74c7a7340166b39d906f174bec54616c6f73'',
       ticker = ''TALOS'', decimals = None, category = ai,
       minTradeSize = Some 10, maxTradeSize = Some 200,
       profitTargets = Some \<lparr>quick = 0.10, medium = 0.20, long = 0.30\<rparr>,
       stopLoss = None, trailingStop = Some 0.05, maxHoldTime = None\<rparr>,
      \<lparr>unit = ''6787a47e9f73efe4002d763337140da27afa8eb9a39413d2c39d4286524144546f6b656e73'',
       ticker = ''RAD'', decimals = None, category = gaming,
       minTradeSize = Some 10, maxTradeSize = Some 200,
       profitTargets = Some \<lparr>quick = 0.10, medium = 0.20, long = 0.30\<rparr>,
       stopLoss = None, trailingStop = Some 0.05, maxHoldTime = None\<rparr>,
      \<lparr>unit = ''8db269c3ec630e06ae29f74bc39edd1f87c819f1056206e879a1cd61446a65644d6963726f555344'',
       ticker = ''DJED'', decimals = None, category = stable,
       minTradeSize = Some 10, maxTradeSize = Some 200,
       profitTargets = Some \<lparr>quick = 0.02, medium = 0.05, long = 0.08\<rparr>,
       stopLoss = None, trailingStop = Some 0.02, maxHoldTime = None\<rparr>,
      \<lparr>unit = ''e5a42a1a1d3d1da71b0449663c32798725888d2eb0843c4dabeca05a576f726c644d6f62696c65546f6b656e58'',
       ticker = ''WMTX'', decimals = None, category = depin,
       minTradeSize = Some 10, maxTradeSize = Some 200,
       profitTargets = Some \<lparr>quick = 0.10, medium = 0.20, long = 0.30\<rparr>,
       stopLoss = None, trailingStop = Some 0.08, maxHoldTime = None\<rparr>,
      \<lparr>unit = ''da8c30857834c6ae7203935b89278c532b3995245295456f993e1d244c51'',
       ticker = ''LQ'', decimals = None, category = defi,
       minTradeSize = Some 10, maxTradeSize = Some 200,
       profitTargets = Some \<lparr>quick = 0.10, medium = 0.20, long = 0.30\<rparr>,
       stopLoss = None, trailingStop = Some 0.06, maxHoldTime = None\<rparr>,
      \<lparr>unit = ''279c909f348e533da5808898f87f9a14bb2c3dfbbacccd631d927a3f534e454b'',
       ticker = ''SNEK'', decimals = None, category = meme_coins,
       minTradeSize = Some 10, maxTradeSize = Some 200,
       profitTargets = Some \<lparr>quick = 0.10, medium = 0.20, long = 0.30\<rparr>,
       stopLoss = None, trailingStop = Some 0.10, maxHoldTime = None\<rparr> ]"

definition getAllTradingTokens :: "TokenConfig list" where
  "getAllTradingTokens = TRADING_TOKENS"

definition getTokenConfig :: "string \<Rightarrow> TokenConfig option" where
  "getTokenConfig u = find (\<lambda>token. unit token = u) TRADING_TOKENS"

definition getTokenConfigByTicker :: "string \<Rightarrow> TokenConfig option" where
  "getTokenConfigByTicker t = find (\<lambda>token. ticker token = t) TRADING_TOKENS"

text \<open>
  \<^verbatim>\<open>getTokenInfo(unit)\<close> of the bot. Its declared result is
  \<^verbatim>\<open>TokenConfig | undefined\<close>, hence the option. It passes the unit to the lookup
  by ticker, as the source does.
\<close>

definition getTokenInfo :: "string \<Rightarrow> TokenConfig option" where
  "getTokenInfo u =
     (case getTokenConfigByTicker u of
        Some configuredToken \<Rightarrow> Some configuredToken
      | None \<Rightarrow>
          Some \<lparr>unit = u, ticker = take 10 u @ ''...'', decimals = None,
                category = other, minTradeSize = Some 10, maxTradeSize = Some 200,
                profitTargets = Some \<lparr>quick = 0.10, medium = 0.20, long = 0.30\<rparr>,
                stopLoss = None, trailingStop = Some 0.05, maxHoldTime = None\<rparr>)"

section \<open>The outside world\<close>

text \<open>
  Every request the bot sends (TapTools, OpenAI, Iris) either throws or answers. The
  answers of one iteration are collected in a record of functions from the request's
  arguments to \<open>error + answer\<close>, with \<open>Inl\<close> for a thrown exception; a request
  repeated with the same arguments within the iteration gets the same answer. Payloads the
  source types as \<^verbatim>\<open>any\<close> are JSON values; an object of numbers
  (\<^verbatim>\<open>Record<string, number>\<close>) is an association list with distinct keys.
\<close>

datatype error = RequestFailed string | JsonSyntaxError string | TypeError string

datatype json =
    JNull | JBool bool | JNum real | JStr string
  | JArr "json list" | JObj "(string \<times> json) list"

text \<open>\<^verbatim>\<open>TapToolsVolumeToken\<close>; the prefix keeps its fields apart from \<open>TokenConfig\<close>'s.\<close>

record TapToolsVolumeToken =
  tok_price :: real
  tok_ticker :: string
  tok_unit :: string
  tok_volume :: real

text \<open>
  The address info of TapTools. \<^verbatim>\<open>lovelace\<close> and each \<^verbatim>\<open>quantity\<close> arrive
  as strings of decimal digits; the model holds the integer \<^verbatim>\<open>parseInt(s, 10)\<close>
  reads from such a string. A missing \<^verbatim>\<open>lovelace\<close> or \<^verbatim>\<open>assets\<close> is
  \<open>None\<close>.
\<close>

record Asset =
  asset_unit :: string
  asset_quantity :: int

record AddressInfo =
  lovelace :: "int option"
  assets :: "Asset list option"

text \<open>
  A decision as the loop reads it. The source casts the parsed answer of the model to
  \<^verbatim>\<open>LlmDecision\<close> without a check, so every field may be missing: \<open>trade\<close>
  and \<open>direction\<close> are the strings found there (\<open>None\<close> when the field is missing
  or holds no string), \<open>confidence\<close> and \<open>size_ada\<close> (the field
  \<^verbatim>\<open>size\<close>) the numbers read from theirs (\<open>None\<close> when missing). A parsed answer
  that is no object at all (a number, a string, an array) reads as an object without
  fields; the answer \<^verbatim>\<open>null\<close> is kept apart, see \<open>chat_completion\<close> below.
\<close>

record LlmDecision =
  trade :: "string option"
  direction :: "string option"
  confidence :: "real option"
  size_ada :: "real option"
  reasoning :: "(string \<times> string) list"

record TokenData =
  td_ticker :: string
  td_unit :: string
  volume_24h :: real
  td_price :: real
  aggregated_price :: "real option"
  price_change :: "(string \<times> real) list"
  pools :: "json list"
  ohlcv :: "json list"
  trading_stats :: "(string \<times> json) list"
  mcap :: "(string \<times> json) list"

record IrisAsset =
  iris_decimals :: "nat option"

text \<open>
  The requests. A response of a request whose wrapper checks \<^verbatim>\<open>resp.status\<close> is a
  pair of the status and the data. \<open>chat_completion\<close> stands for the OpenAI request
  followed by \<^verbatim>\<open>JSON.parse\<close> of its text; both may throw, and the parsed answer
  may be \<^verbatim>\<open>null\<close> (\<open>Inr None\<close>). The market-data answers are taken at their
  declared types. \<open>CARDANO_ADDRESS\<close> is the environment variable.
\<close>

record World =
  CARDANO_ADDRESS :: "string option"
  get_top_volume :: "error + TapToolsVolumeToken list"
  get_address_info :: "string \<Rightarrow> error + AddressInfo"
  post_token_prices :: "string list \<Rightarrow> error + (string \<times> real) list"
  get_prices_chg :: "string \<Rightarrow> string \<Rightarrow> error + nat \<times> (string \<times> real) list"
  get_pools :: "string \<Rightarrow> nat \<Rightarrow> error + nat \<times> json list"
  get_ohlcv :: "string \<Rightarrow> string \<Rightarrow> nat \<Rightarrow> error + nat \<times> json list"
  get_trading_stats :: "string \<Rightarrow> string \<Rightarrow> error + nat \<times> (string \<times> json) list"
  get_mcap :: "string \<Rightarrow> error + nat \<times> (string \<times> json) list"
  chat_completion :: "TokenData \<Rightarrow> error + LlmDecision option"
  iris_assets_match :: "string \<Rightarrow> string \<Rightarrow> error + IrisAsset list"

section \<open>TapTools calls\<close>

text \<open>Each wrapper is a \<^verbatim>\<open>try\<close> around one request whose \<^verbatim>\<open>catch\<close> returns a default.\<close>

definition taptoolsGetTopVolumeTokens :: "World \<Rightarrow> nat \<Rightarrow> TapToolsVolumeToken list" where
  "taptoolsGetTopVolumeTokens w perPage =
     (case get_top_volume w of Inl err \<Rightarrow> [] | Inr data \<Rightarrow> take perPage data)"

definition taptoolsGetAddressInfo :: "World \<Rightarrow> string \<Rightarrow> AddressInfo option" where
  "taptoolsGetAddressInfo w address =
     (case get_address_info w address of Inl err \<Rightarrow> None | Inr data \<Rightarrow> Some data)"

definition taptoolsGetTokenPrices :: "World \<Rightarrow> string list \<Rightarrow> (string \<times> real) list" where
  "taptoolsGetTokenPrices w units =
     (case post_token_prices w units of Inl err \<Rightarrow> [] | Inr data \<Rightarrow> data)"

definition taptoolsGetTokenPriceChg :: "World \<Rightarrow> string \<Rightarrow> string \<Rightarrow> (string \<times> real) list" where
  "taptoolsGetTokenPriceChg w u timeframes =
     (case get_prices_chg w u timeframes of
        Inl err \<Rightarrow> []
      | Inr (status, data) \<Rightarrow> if status = 200 then data else [])"

definition taptoolsGetTokenPools :: "World \<Rightarrow> string \<Rightarrow> nat \<Rightarrow> json list" where
  "taptoolsGetTokenPools w u adaOnly =
     (case get_pools w u adaOnly of
        Inl err \<Rightarrow> []
      | Inr (status, data) \<Rightarrow> if status = 200 then data else [])"

definition taptoolsGetTokenOhlcv :: "World \<Rightarrow> string \<Rightarrow> string \<Rightarrow> nat \<Rightarrow> json list" where
  "taptoolsGetTokenOhlcv w u interval numIntervals =
     (case get_ohlcv w u interval numIntervals of
        Inl err \<Rightarrow> []
      | Inr (status, data) \<Rightarrow> if status = 200 then data else [])"

definition taptoolsGetTokenTradingStats ::
  "World \<Rightarrow> string \<Rightarrow> string \<Rightarrow> (string \<times> json) list" where
  "taptoolsGetTokenTradingStats w u timeframe =
     (case get_trading_stats w u timeframe of
        Inl err \<Rightarrow> []
      | Inr (status, data) \<Rightarrow> if status = 200 then data else [])"

definition taptoolsGetTokenMcap :: "World \<Rightarrow> string \<Rightarrow> (string \<times> json) list" where
  "taptoolsGetTokenMcap w u =
     (case get_mcap w u of
        Inl err \<Rightarrow> []
      | Inr (status, data) \<Rightarrow> if status = 200 then data else [])"

text \<open>\<^verbatim>\<open>prices[unit] || 0\<close>: a missing price and a price of 0 both read as 0.\<close>

definition priceOrZero :: "(string \<times> real) list \<Rightarrow> string \<Rightarrow> real" where
  "priceOrZero prices u = orDefault (map_of prices u) 0"

section \<open>LLM decision\<close>

text \<open>
  The \<^verbatim>\<open>catch\<close> of \<^verbatim>\<open>getLlmTradingDecision\<close> returns a decision not to trade.
  An answer that parses is returned as it is, \<^verbatim>\<open>null\<close> included.
\<close>

definition llmErrorDecision :: LlmDecision where
  "llmErrorDecision =
     \<lparr>trade = Some ''false'', direction = Some ''buy'', confidence = Some 0,
      size_ada = Some 0,
      reasoning = [(''price_analysis'', ''LLM error''), (''volume_analysis'', ''''),
                   (''risk_assessment'', ''''), (''confidence_explanation'', ''''),
                   (''size_explanation'', '''')]\<rparr>"

definition getLlmTradingDecision :: "World \<Rightarrow> TokenData \<Rightarrow> LlmDecision option" where
  "getLlmTradingDecision w tokenData =
     (case chat_completion w tokenData of
        Inl err \<Rightarrow> Some llmErrorDecision
      | Inr answer \<Rightarrow> answer)"

section \<open>Asset decimals from Iris\<close>

definition getAssetDecimals :: "World \<Rightarrow> string \<Rightarrow> nat" where
  "getAssetDecimals w u =
     (let policyId = take 56 u; nameHex = drop 56 u
      in case iris_assets_match w policyId nameHex of
           Inl err \<Rightarrow> 0
         | Inr data \<Rightarrow>
             (case data of
                [] \<Rightarrow> 0
              | a # rest \<Rightarrow> (case iris_decimals a of None \<Rightarrow> 0 | Some d \<Rightarrow> d)))"

section \<open>The token universe\<close>

datatype TokenSource = PREDEFINED_LIST | TOP_VOLUME | COMBINED

definition ACTIVE_TOKEN_SOURCE :: TokenSource where
  "ACTIVE_TOKEN_SOURCE = PREDEFINED_LIST"

text \<open>The loop that pushes the top-volume tokens whose unit is not yet in the list.\<close>

fun addNonDuplicates ::
  "TapToolsVolumeToken list \<Rightarrow> TapToolsVolumeToken list \<Rightarrow> TapToolsVolumeToken list" where
  "addNonDuplicates combinedTokens [] = combinedTokens"
| "addNonDuplicates combinedTokens (token # rest) =
     (if \<not> list_ex (\<lambda>t. tok_unit t = tok_unit token) combinedTokens
      then addNonDuplicates (combinedTokens @ [token]) rest
      else addNonDuplicates combinedTokens rest)"

definition getTopTokens :: "World \<Rightarrow> TapToolsVolumeToken list" where
  "getTopTokens w =
     (let configured =
            (if ACTIVE_TOKEN_SOURCE = PREDEFINED_LIST \<or> ACTIVE_TOKEN_SOURCE = COMBINED
             then map (\<lambda>token. \<lparr>tok_price = 0, tok_ticker = ticker token,
                                 tok_unit = unit token, tok_volume = 0\<rparr>)
                      getAllTradingTokens
             else []);
          combinedTokens =
            (if ACTIVE_TOKEN_SOURCE = TOP_VOLUME \<or> ACTIVE_TOKEN_SOURCE = COMBINED
             then addNonDuplicates configured (taptoolsGetTopVolumeTokens w 10)
             else configured);
          tokenUnits = map tok_unit (filter (\<lambda>t. tok_price t = 0) combinedTokens)
      in if tokenUnits \<noteq> []
         then (let prices = taptoolsGetTokenPrices w tokenUnits
               in map (\<lambda>token. if tok_price token = 0
                                then token\<lparr>tok_price := priceOrZero prices (tok_unit token)\<rparr>
                                else token)
                      combinedTokens)
         else combinedTokens)"

section \<open>Portfolio valuation\<close>

text \<open>
  The snapshot one iteration works with: the two local variables
  \<^verbatim>\<open>categoryValues\<close> and \<^verbatim>\<open>totalAdaValue\<close> of \<^verbatim>\<open>loop\<close>.
\<close>

record PortfolioSnapshot =
  categoryValues :: "Category \<Rightarrow> real"
  totalAdaValue :: real

text \<open>The list of all categories, in the order \<^verbatim>\<open>logPortfolioBreakdown\<close> prints them.\<close>

definition categories :: "Category list" where
  "categories = [ada, stable, defi, ai, gaming, meme_coins, depin, other]"

definition sumCategoryValues :: "(Category \<Rightarrow> real) \<Rightarrow> real" where
  "sumCategoryValues cv = sum_list (map cv categories)"

text \<open>
  \<^verbatim>\<open>tokenInfo?.decimals || await getAssetDecimals(asset.unit)\<close>: the decimals of the
  token's configuration unless they are missing or zero, else the looked-up ones
  (\<open>looked\<close>).
\<close>

definition resolveDecimals :: "TokenConfig option \<Rightarrow> nat \<Rightarrow> nat" where
  "resolveDecimals tokenInfo looked =
     (case tokenInfo of
        None \<Rightarrow> looked
      | Some cfg \<Rightarrow>
          (case decimals cfg of
             None \<Rightarrow> looked
           | Some d \<Rightarrow> if d = 0 then looked else d))"

text \<open>
  The resolution of decimals as the specification words it, for comparison: the
  configured decimals whenever the configuration has them, else the looked-up ones.
\<close>

definition specDecimals :: "TokenConfig option \<Rightarrow> nat \<Rightarrow> nat" where
  "specDecimals tokenInfo looked =
     (case tokenInfo of
        None \<Rightarrow> looked
      | Some cfg \<Rightarrow> (case decimals cfg of None \<Rightarrow> looked | Some d \<Rightarrow> d))"

text \<open>The value of one wallet asset, as the body of the valuation loop computes it.\<close>

definition assetValueInAda :: "World \<Rightarrow> Asset \<Rightarrow> real \<Rightarrow> real" where
  "assetValueInAda w asset price =
     (let tokenInfo = getTokenConfig (asset_unit asset);
          decs = resolveDecimals tokenInfo (getAssetDecimals w (asset_unit asset));
          quantity = real_of_int (asset_quantity asset) / 10 ^ decs;
          valueInAda = quantity * price
      in valueInAda)"

text \<open>\<^verbatim>\<open>tokenInfo?.category || 'other'\<close>.\<close>

definition assetCategory :: "Asset \<Rightarrow> Category" where
  "assetCategory asset =
     (case getTokenConfig (asset_unit asset) of
        None \<Rightarrow> other
      | Some cfg \<Rightarrow> category cfg)"

text \<open>One pass of the loop over \<^verbatim>\<open>addressInfo.assets\<close>.\<close>

definition valueAsset ::
  "World \<Rightarrow> (string \<times> real) list \<Rightarrow> PortfolioSnapshot \<Rightarrow> Asset \<Rightarrow> PortfolioSnapshot" where
  "valueAsset w tokenPrices s asset =
     (let price = priceOrZero tokenPrices (asset_unit asset)
      in if price \<le> 0 then s
         else
           (let valueInAda = assetValueInAda w asset price;
                c = assetCategory asset
            in \<lparr>categoryValues = (categoryValues s)(c := categoryValues s c + valueInAda),
                totalAdaValue = totalAdaValue s + valueInAda\<rparr>))"

definition emptySnapshot :: PortfolioSnapshot where
  "emptySnapshot = \<lparr>categoryValues = (\<lambda>c. 0), totalAdaValue = 0\<rparr>"

text \<open>
  The snapshot of an iteration: all zero without address info; otherwise the ADA
  balance, then every asset of the wallet in turn.
\<close>

definition valuePortfolio :: "World \<Rightarrow> AddressInfo option \<Rightarrow> PortfolioSnapshot" where
  "valuePortfolio w addressInfo =
     (case addressInfo of
        None \<Rightarrow> emptySnapshot
      | Some info \<Rightarrow>
          (let userAda = real_of_int (case lovelace info of None \<Rightarrow> 0 | Some l \<Rightarrow> l) / 1000000;
               s1 = \<lparr>categoryValues = (categoryValues emptySnapshot)(ada := userAda),
                     totalAdaValue = totalAdaValue emptySnapshot + userAda\<rparr>;
               allUnitsInWallet =
                 (case assets info of None \<Rightarrow> [] | Some as \<Rightarrow> map asset_unit as);
               tokenPrices = taptoolsGetTokenPrices w allUnitsInWallet
           in case assets info of
                None \<Rightarrow> s1
              | Some as \<Rightarrow> foldl (valueAsset w tokenPrices) s1 as))"

subsection \<open>The earlier version of the loop\<close>

text \<open>
  The repository holds an earlier version of the bot whose valuation differs. Its
  \<^verbatim>\<open>categoryValues\<close> is an object literal with six keys, and it classifies
  with the \<^verbatim>\<open>classifyToken\<close> of the portfolio settings, whose results are not
  among these keys. The object is an association list in insertion order, as
  \<^verbatim>\<open>Object.values\<close> reads it. Reading a key the object does not have gives
  \<^verbatim>\<open>undefined\<close>, and \<^verbatim>\<open>undefined + x\<close> is \<^verbatim>\<open>NaN\<close>, so here a
  number is a real or \<open>NaN\<close>. The total is the sum of
  \<^verbatim>\<open>Object.values(categoryValues)\<close>, taken once at the end.
\<close>

datatype jsnum = Num real | NaN

fun jsAdd :: "jsnum \<Rightarrow> jsnum \<Rightarrow> jsnum" where
  "jsAdd (Num a) (Num b) = Num (a + b)"
| "jsAdd (Num a) NaN = NaN"
| "jsAdd NaN b = NaN"

text \<open>\<^verbatim>\<open>Math.abs(a - b) < eps\<close>: false as soon as one side is \<open>NaN\<close>.\<close>

fun withinEpsilon :: "real \<Rightarrow> jsnum \<Rightarrow> jsnum \<Rightarrow> bool" where
  "withinEpsilon eps (Num a) (Num b) = (\<bar>a - b\<bar> < eps)"
| "withinEpsilon eps (Num a) NaN = False"
| "withinEpsilon eps NaN b = False"

text \<open>\<^verbatim>\<open>obj[k] = v\<close>: an existing key keeps its place, a new one goes last.\<close>

fun objSet :: "(string \<times> jsnum) list \<Rightarrow> string \<Rightarrow> jsnum \<Rightarrow> (string \<times> jsnum) list" where
  "objSet [] k v = [(k, v)]"
| "objSet ((k', v') # rest) k v =
     (if k' = k then (k, v) # rest else (k', v') # objSet rest k v)"

text \<open>\<^verbatim>\<open>obj[k] += v\<close>.\<close>

definition addAssign ::
  "(string \<times> jsnum) list \<Rightarrow> string \<Rightarrow> jsnum \<Rightarrow> (string \<times> jsnum) list" where
  "addAssign obj k v =
     objSet obj k (case map_of obj k of None \<Rightarrow> NaN | Some old \<Rightarrow> jsAdd old v)"

definition legacyCategoryValues :: "(string \<times> jsnum) list" where
  "legacyCategoryValues =
     [(''ada'', Num 0), (''meme_coins'', Num 0), (''shards_talos'', Num 0),
      (''indy'', Num 0), (''big_others'', Num 0), (''new_positions'', Num 0)]"

definition legacyAssetValueInAda :: "Asset \<Rightarrow> real \<Rightarrow> real" where
  "legacyAssetValueInAda asset price =
     (let quantity = real_of_int (asset_quantity asset);
          valueInAda = quantity * price
      in valueInAda)"

definition legacyValueAsset ::
  "(string \<times> real) list \<Rightarrow> (string \<times> jsnum) list \<Rightarrow> Asset \<Rightarrow> (string \<times> jsnum) list" where
  "legacyValueAsset tokenPrices cv asset =
     (let price = priceOrZero tokenPrices (asset_unit asset)
      in if price \<le> 0 then cv
         else
           (let valueInAda = legacyAssetValueInAda asset price;
                c = classifyToken (asset_unit asset)
            in addAssign cv (categoryName c) (Num valueInAda)))"

definition legacyValuePortfolio ::
  "World \<Rightarrow> AddressInfo option \<Rightarrow> (string \<times> jsnum) list \<times> jsnum" where
  "legacyValuePortfolio w addressInfo =
     (case addressInfo of
        None \<Rightarrow> (legacyCategoryValues, Num 0)
      | Some info \<Rightarrow>
          (let userAda = real_of_int (case lovelace info of None \<Rightarrow> 0 | Some l \<Rightarrow> l) / 1000000;
               cv1 = objSet legacyCategoryValues ''ada'' (Num userAda);
               allUnitsInWallet =
                 (case assets info of None \<Rightarrow> [] | Some as \<Rightarrow> map asset_unit as);
               tokenPrices = taptoolsGetTokenPrices w allUnitsInWallet;
               cv2 = (case assets info of
                        None \<Rightarrow> cv1
                      | Some as \<Rightarrow> foldl (legacyValueAsset tokenPrices) cv1 as)
           in (cv2, foldl jsAdd (Num 0) (map snd cv2))))"

section \<open>The iteration\<close>

text \<open>
  What an iteration does to the outside, in order: the decision requests it sends, the
  swaps it hands to \<^verbatim>\<open>executeDexSwap\<close>, the skips it logs, and the error its
  outer \<^verbatim>\<open>catch\<close> logs. The executor and the sizer only ask whether the direction
  is \<^verbatim>\<open>'buy'\<close>; \<open>toDirection\<close> is that test.
\<close>

datatype Event =
    NoTokensReturned
  | LlmDecisionRequested TokenData
  | SkipNoTrade string
  | SkipLowConfidence string "real option"
  | SkipNoTokenConfig string
  | SkipFinalAmountBelowOne
  | ExecuteDexSwap Direction real string
  | MainLoopError error

definition toDirection :: "string \<Rightarrow> Direction" where
  "toDirection d = (if d = ''buy'' then buy else sell)"

text \<open>The (all caught) market-data requests that fill \<^verbatim>\<open>tokenData\<close>.\<close>

definition buildTokenData :: "World \<Rightarrow> TapToolsVolumeToken \<Rightarrow> TokenData" where
  "buildTokenData w tokenInfo =
     \<lparr>td_ticker = tok_ticker tokenInfo,
      td_unit = tok_unit tokenInfo,
      volume_24h = tok_volume tokenInfo,
      td_price = tok_price tokenInfo,
      aggregated_price = map_of (taptoolsGetTokenPrices w [tok_unit tokenInfo]) (tok_unit tokenInfo),
      price_change = taptoolsGetTokenPriceChg w (tok_unit tokenInfo) ''1h,4h,24h'',
      pools = taptoolsGetTokenPools w (tok_unit tokenInfo) 1,
      ohlcv = taptoolsGetTokenOhlcv w (tok_unit tokenInfo) ''1h'' 24,
      trading_stats = taptoolsGetTokenTradingStats w (tok_unit tokenInfo) ''24h'',
      mcap = taptoolsGetTokenMcap w (tok_unit tokenInfo)\<rparr>"

text \<open>
  The recommended size: \<^verbatim>\<open>minSize\<close>, \<^verbatim>\<open>maxSize\<close> and \<^verbatim>\<open>recommended\<close>
  of the loop body.
\<close>

definition minSize :: "TokenConfig \<Rightarrow> real" where
  "minSize tokenConfig = orDefault (minTradeSize tokenConfig) 50"

definition maxSize :: "TokenConfig \<Rightarrow> real" where
  "maxSize tokenConfig = orDefault (maxTradeSize tokenConfig) 500"

definition recommendedSize :: "TokenConfig \<Rightarrow> LlmDecision \<Rightarrow> real" where
  "recommendedSize tokenConfig decision =
     min (max (orDefault (size_ada decision) (minSize tokenConfig)) (minSize tokenConfig))
         (maxSize tokenConfig)"

text \<open>
  Clamping as the specification uses the word, to compare \<open>recommendedSize\<close> with.
\<close>

definition clampInto :: "real \<Rightarrow> real \<Rightarrow> real \<Rightarrow> real" where
  "clampInto lo hi x = (if x < lo then lo else if hi < x then hi else x)"

text \<open>
  \<^verbatim>\<open>decision.confidence < 0.6\<close>; the comparison is false on a missing confidence.
\<close>

definition confidenceBelowThreshold :: "LlmDecision \<Rightarrow> bool" where
  "confidenceBelowThreshold decision =
     (case confidence decision of None \<Rightarrow> False | Some c \<Rightarrow> c < 0.6)"

text \<open>
  The last two statements of the loop body: the log line, whose
  \<^verbatim>\<open>decision.direction.toUpperCase()\<close> throws when there is no string to call it
  on, and the call of the executor.
\<close>

definition logAndExecute ::
  "TapToolsVolumeToken \<Rightarrow> LlmDecision \<Rightarrow> real \<Rightarrow> error + Event list" where
  "logAndExecute tokenInfo decision finalAmount =
     (case direction decision of
        None \<Rightarrow> Inl (TypeError ''decision.direction.toUpperCase'')
      | Some d \<Rightarrow> Inr [ExecuteDexSwap (toDirection d) finalAmount (tok_unit tokenInfo)])"

text \<open>
  The direction the sizer sees: a missing direction is not \<^verbatim>\<open>'buy'\<close>, so the
  sizer takes its other branch.
\<close>

definition sizerDirection :: "LlmDecision \<Rightarrow> Direction" where
  "sizerDirection decision =
     (case direction decision of None \<Rightarrow> sell | Some d \<Rightarrow> toDirection d)"

text \<open>
  The body of the loop over the tokens, from the decision on: the two gates, the token
  configuration, the size, the sizer (only with address info) and the swap. \<open>Inl\<close> is
  an exception thrown in the body.
\<close>

definition gateSizeExecute ::
  "AddressInfo option \<Rightarrow> PortfolioSnapshot \<Rightarrow> TapToolsVolumeToken \<Rightarrow> LlmDecision
     \<Rightarrow> error + Event list" where
  "gateSizeExecute addressInfo s tokenInfo decision =
     (if trade decision = Some ''false'' then Inr [SkipNoTrade (tok_ticker tokenInfo)]
      else if confidenceBelowThreshold decision
        then Inr [SkipLowConfidence (tok_ticker tokenInfo) (confidence decision)]
      else
        (case getTokenInfo (tok_unit tokenInfo) of
           None \<Rightarrow> Inr [SkipNoTokenConfig (tok_ticker tokenInfo)]
         | Some tokenConfig \<Rightarrow>
             (let recommended = recommendedSize tokenConfig decision
              in case addressInfo of
                   None \<Rightarrow> logAndExecute tokenInfo decision recommended
                 | Some info \<Rightarrow>
                     (let catValueNow = categoryValues s (category tokenConfig);
                          userAdaBal = categoryValues s ada;
                          finalAmount =
                            adjustTradeForPortfolio (sizerDirection decision)
                              (category tokenConfig) recommended (totalAdaValue s)
                              catValueNow userAdaBal
                      in if finalAmount < 1 then Inr [SkipFinalAmountBelowOne]
                         else logAndExecute tokenInfo decision finalAmount))))"

text \<open>
  One pass of the loop over the tokens: the events it adds, and the exception that
  ended it, if any. Reading \<^verbatim>\<open>decision.trade\<close> of the answer \<^verbatim>\<open>null\<close> throws.
\<close>

definition processToken ::
  "World \<Rightarrow> AddressInfo option \<Rightarrow> PortfolioSnapshot \<Rightarrow> TapToolsVolumeToken
     \<Rightarrow> Event list \<times> error option" where
  "processToken w addressInfo s tokenInfo =
     (let tokenData = buildTokenData w tokenInfo
      in case getLlmTradingDecision w tokenData of
           None \<Rightarrow> ([LlmDecisionRequested tokenData], Some (TypeError ''decision.trade''))
         | Some decision \<Rightarrow>
             (case gateSizeExecute addressInfo s tokenInfo decision of
                Inl err \<Rightarrow> ([LlmDecisionRequested tokenData], Some err)
              | Inr events \<Rightarrow> (LlmDecisionRequested tokenData # events, None)))"

text \<open>The loop over the tokens stops at the first pass that throws.\<close>

fun forEachToken ::
  "World \<Rightarrow> AddressInfo option \<Rightarrow> PortfolioSnapshot \<Rightarrow> TapToolsVolumeToken list
     \<Rightarrow> Event list \<times> error option" where
  "forEachToken w addressInfo s [] = ([], None)"
| "forEachToken w addressInfo s (tokenInfo # rest) =
     (case processToken w addressInfo s tokenInfo of
        (events, Some err) \<Rightarrow> (events, Some err)
      | (events, None) \<Rightarrow>
          (case forEachToken w addressInfo s rest of
             (events', thrown) \<Rightarrow> (events @ events', thrown)))"

text \<open>
  \<^verbatim>\<open>if (CARDANO_ADDRESS)\<close>: an unset variable and the empty string both count as
  no address.
\<close>

definition fetchAddressInfo :: "World \<Rightarrow> AddressInfo option" where
  "fetchAddressInfo w =
     (case CARDANO_ADDRESS w of
        None \<Rightarrow> None
      | Some address \<Rightarrow> if address = [] then None else taptoolsGetAddressInfo w address)"

text \<open>The \<^verbatim>\<open>try\<close> block of \<^verbatim>\<open>loop\<close>.\<close>

definition loopBody :: "World \<Rightarrow> Event list \<times> error option" where
  "loopBody w =
     (let tokens = getTopTokens w
      in if tokens = [] then ([NoTokensReturned], None)
         else
           (let addressInfo = fetchAddressInfo w;
                s = valuePortfolio w addressInfo
            in forEachToken w addressInfo s tokens))"

text \<open>
  \<^verbatim>\<open>loop\<close>: the \<^verbatim>\<open>try\<close> block, and the \<^verbatim>\<open>catch\<close> that logs what was
  thrown. Nothing follows the loop over the tokens, so an exception ends the iteration.
\<close>

definition loop :: "World \<Rightarrow> Event list" where
  "loop w =
     (case loopBody w of
        (events, None) \<Rightarrow> events
      | (events, Some err) \<Rightarrow> events @ [MainLoopError err])"

text \<open>The units of the tokens a decision was requested for, and the swaps, of a trace.\<close>

fun decisionUnits :: "Event list \<Rightarrow> string list" where
  "decisionUnits [] = []"
| "decisionUnits (LlmDecisionRequested tokenData # es) = td_unit tokenData # decisionUnits es"
| "decisionUnits (e # es) = decisionUnits es"

fun swapsOf :: "Event list \<Rightarrow> (Direction \<times> real \<times> string) list" where
  "swapsOf [] = []"
| "swapsOf (ExecuteDexSwap d a u # es) = (d, a, u) # swapsOf es"
| "swapsOf (e # es) = swapsOf es"

text \<open>
  An answer of the decision source the loop body can read to its end: a failed request
  (replaced by the decision not to trade), or an object with a string for a direction.
\<close>

definition answerReadable :: "World \<Rightarrow> TapToolsVolumeToken \<Rightarrow> bool" where
  "answerReadable w tokenInfo =
     (case chat_completion w (buildTokenData w tokenInfo) of
        Inl err \<Rightarrow> True
      | Inr None \<Rightarrow> False
      | Inr (Some decision) \<Rightarrow> direction decision \<noteq> None)"

section \<open>Example inputs\<close>

text \<open>Concrete decisions, tokens and worlds on which the model is run further below.\<close>

definition approvingDecision :: LlmDecision where
  "approvingDecision =
     \<lparr>trade = Some ''true'', direction = Some ''buy'', confidence = Some 0.9,
      size_ada = Some 100, reasoning = []\<rparr>"

definition lowConfidenceDecision :: LlmDecision where
  "lowConfidenceDecision =
     \<lparr>trade = Some ''true'', direction = Some ''sell'', confidence = Some 0.4,
      size_ada = Some 1000, reasoning = []\<rparr>"

definition oversizedDecision :: LlmDecision where
  "oversizedDecision =
     \<lparr>trade = Some ''true'', direction = Some ''buy'', confidence = Some 0.9,
      size_ada = Some 1000, reasoning = []\<rparr>"

definition snekUnit :: string where
  "snekUnit = ''279c909f348e533da5808898f87f9a14bb2c3dfbbacccd631d927a3f534e454b''"

definition snekToken :: TapToolsVolumeToken where
  "snekToken = \<lparr>tok_price = 0, tok_ticker = ''SNEK'', tok_unit = snekUnit, tok_volume = 0\<rparr>"

text \<open>The configuration the loop works with for that token (see C10 below).\<close>

definition snekTokenInfo :: TokenConfig where
  "snekTokenInfo =
     \<lparr>unit = snekUnit, ticker = ''279c909f34...'', decimals = None,
      category = other, minTradeSize = Some 10, maxTradeSize = Some 200,
      profitTargets = Some \<lparr>quick = 0.10, medium = 0.20, long = 0.30\<rparr>,
      stopLoss = None, trailingStop = Some 0.05, maxHoldTime = None\<rparr>"

text \<open>Every market-data request fails; the decision source approves a buy of 100 ADA.\<close>

definition marketDownWorld :: World where
  "marketDownWorld =
     \<lparr>CARDANO_ADDRESS = None,
      get_top_volume = Inl (RequestFailed ''timeout''),
      get_address_info = (\<lambda>address. Inl (RequestFailed ''timeout'')),
      post_token_prices = (\<lambda>units. Inl (RequestFailed ''timeout'')),
      get_prices_chg = (\<lambda>u timeframes. Inl (RequestFailed ''timeout'')),
      get_pools = (\<lambda>u adaOnly. Inl (RequestFailed ''timeout'')),
      get_ohlcv = (\<lambda>u interval numIntervals. Inl (RequestFailed ''timeout'')),
      get_trading_stats = (\<lambda>u timeframe. Inl (RequestFailed ''timeout'')),
      get_mcap = (\<lambda>u. Inl (RequestFailed ''timeout'')),
      chat_completion = (\<lambda>tokenData. Inr (Some approvingDecision)),
      iris_assets_match = (\<lambda>policyId nameHex. Inl (RequestFailed ''timeout''))\<rparr>"

text \<open>The same, and the decision source fails too.\<close>

definition allDownWorld :: World where
  "allDownWorld =
     marketDownWorld\<lparr>chat_completion := (\<lambda>tokenData. Inl (JsonSyntaxError ''Unexpected token''))\<rparr>"

text \<open>The same as the first, but the decision source is not confident enough.\<close>

definition lowConfidenceWorld :: World where
  "lowConfidenceWorld =
     marketDownWorld\<lparr>chat_completion := (\<lambda>tokenData. Inr (Some lowConfidenceDecision))\<rparr>"

text \<open>The same as the first, but the decision source answers \<^verbatim>\<open>null\<close>.\<close>

definition nullAnswerWorld :: World where
  "nullAnswerWorld = marketDownWorld\<lparr>chat_completion := (\<lambda>tokenData. Inr None)\<rparr>"

text \<open>The same as the first, with an address configured whose lookup fails.\<close>

definition addressDownWorld :: World where
  "addressDownWorld = marketDownWorld\<lparr>CARDANO_ADDRESS := Some ''addr1qxy''\<rparr>"

text \<open>
  A wallet of 500 ADA and 5 DJED (5000000 raw units at 6 decimals), with DJED priced at
  2 ADA.
\<close>

definition djedUnit :: string where
  "djedUnit = ''8db269c3ec630e06ae29f74bc39edd1f87c819f1056206e879a1cd61446a65644d6963726f555344''"

definition djedHolding :: Asset where
  "djedHolding = \<lparr>asset_unit = djedUnit, asset_quantity = 5000000\<rparr>"

definition walletInfo :: AddressInfo where
  "walletInfo = \<lparr>lovelace = Some 500000000, assets = Some [djedHolding]\<rparr>"

definition walletWorld :: World where
  "walletWorld =
     marketDownWorld
       \<lparr>CARDANO_ADDRESS := Some ''addr1qxy'',
        get_address_info := (\<lambda>address. Inr walletInfo),
        post_token_prices := (\<lambda>units. Inr [(djedUnit, 2)]),
        iris_assets_match := (\<lambda>policyId nameHex. Inr [\<lparr>iris_decimals = Some 6\<rparr>])\<rparr>"

text \<open>The snapshot of that wallet.\<close>

definition walletSnapshot :: PortfolioSnapshot where
  "walletSnapshot =
     \<lparr>categoryValues = ((\<lambda>c. 0)(ada := 500))(stable := 10), totalAdaValue = 510\<rparr>"

section \<open>Properties of the position sizer\<close>

text \<open>
  Below, \<open>wanted\<close> is the recommended amount, \<open>tot\<close> the portfolio total,
  \<open>cur\<close> the current value of the category and \<open>bal\<close> the ADA balance.
\<close>

text \<open>
  C1. On a buy, when the category already holds at least its target share of the
  portfolio (\<open>currentCategoryValue \<ge> targetRatios category * totalAdaValue\<close>, that
  is, no room is left), the sizer returns exactly 0.
\<close>

theorem buy_at_or_over_target_returns_zero:
  assumes "targetRatios cat * tot \<le> cur"
  shows "adjustTradeForPortfolio buy cat wanted tot cur bal = 0"
  using assms by (simp add: adjustTradeForPortfolio_def Let_def)

theorem buy_at_or_over_target_returns_zero_witness:
  "targetRatios defi * 2000 \<le> 300
   \<and> adjustTradeForPortfolio buy defi 100 2000 300 500 = 0"
proof -
  have cap: "targetRatios defi * 2000 \<le> 300" by simp
  from buy_at_or_over_target_returns_zero [OF cap, of 100 500] cap
  show ?thesis by simp
qed

text \<open>
  C2, as the code has it. On a buy the result is never negative and never exceeds
  the larger of 0 and \<open>min recommendedAda roomLeft (userAdaBalance - 2)\<close>; a result
  other than 0 is that minimum itself. The bound by the minimum alone fails when the
  minimum is negative, because the sizer then answers 0.
\<close>

theorem buy_result_bounds:
  "0 \<le> adjustTradeForPortfolio buy cat wanted tot cur bal
   \<and> adjustTradeForPortfolio buy cat wanted tot cur bal
       \<le> max 0 (min wanted (min (targetRatios cat * tot - cur) (bal - 2)))
   \<and> (adjustTradeForPortfolio buy cat wanted tot cur bal = 0
        \<or> adjustTradeForPortfolio buy cat wanted tot cur bal
            = min wanted (min (targetRatios cat * tot - cur) (bal - 2)))"
  unfolding adjustTradeForPortfolio_def Let_def
  by (simp add: min_def max_def)

text \<open>
  C2 as first stated (a result at most the minimum of the three quantities) is false
  for a category that is over its target: with 1000 ADA in total and 250 ADA already
  in \<open>defi\<close> (cap 150) the room left is \<open>-100\<close>, the sizer returns 0, and 0 is
  above the minimum.
\<close>

theorem buy_result_bounds_counterexample:
  "\<not> adjustTradeForPortfolio buy defi 100 1000 250 500
       \<le> min 100 (min (targetRatios defi * 1000 - 250) (500 - 2))"
  by (simp add: adjustTradeForPortfolio_def Let_def)

text \<open>
  C9. On a sell the sizer hands back \<open>recommendedAda\<close> unchanged, whatever the
  portfolio total, the category value and the ADA balance are; no holding of the
  token is consulted.
\<close>

theorem sell_passes_recommended_through:
  "adjustTradeForPortfolio sell cat wanted tot cur bal = wanted"
  by (simp add: adjustTradeForPortfolio_def)

section \<open>Properties of the token lookup\<close>

lemma find_in_set: "find P xs = Some x \<Longrightarrow> x \<in> set xs"
  by (auto simp: find_Some_iff)

lemma getTokenConfigByTicker_None:
  "u \<notin> set (map ticker TRADING_TOKENS) \<Longrightarrow> getTokenConfigByTicker u = None"
  by (auto simp: getTokenConfigByTicker_def find_None_iff)

lemma getTokenInfo_not_None: "getTokenInfo u \<noteq> None"
  by (simp add: getTokenInfo_def split: option.splits)

lemma getTokenInfo_sizes:
  assumes "getTokenInfo u = Some cfg"
  shows "minTradeSize cfg = Some 10 \<and> maxTradeSize cfg = Some 200"
proof (cases "getTokenConfigByTicker u")
  case None
  with assms show ?thesis by (auto simp: getTokenInfo_def)
next
  case (Some c)
  then have "c \<in> set TRADING_TOKENS"
    unfolding getTokenConfigByTicker_def by (rule find_in_set)
  moreover have "cfg = c" using assms Some by (simp add: getTokenInfo_def)
  ultimately show ?thesis by (auto simp: TRADING_TOKENS_def)
qed

lemma table_has_no_decimals:
  assumes "getTokenConfig u = Some cfg"
  shows "decimals cfg = None"
proof -
  from assms have "cfg \<in> set TRADING_TOKENS"
    unfolding getTokenConfig_def by (rule find_in_set)
  then show ?thesis by (auto simp: TRADING_TOKENS_def)
qed

lemma sizes_of_token_info:
  assumes "getTokenInfo u = Some cfg"
  shows "minSize cfg = 10" and "maxSize cfg = 200"
  using getTokenInfo_sizes [OF assms] by (simp_all add: minSize_def maxSize_def orDefault_def)

lemma recommended_bounds:
  assumes "getTokenInfo u = Some cfg"
  shows "10 \<le> recommendedSize cfg d \<and> recommendedSize cfg d \<le> 200"
  using sizes_of_token_info [OF assms] by (simp add: recommendedSize_def)

section \<open>Properties of the valuation\<close>

lemma sumCategoryValues_update:
  "sumCategoryValues (cv(c := cv c + v)) = sumCategoryValues cv + v"
  by (cases c) (simp_all add: sumCategoryValues_def categories_def)

lemma valueAsset_keeps_total:
  assumes "totalAdaValue s = sumCategoryValues (categoryValues s)"
  shows "totalAdaValue (valueAsset w tp s a)
         = sumCategoryValues (categoryValues (valueAsset w tp s a))"
  using assms by (simp add: valueAsset_def Let_def sumCategoryValues_update)

lemma foldl_valueAsset_keeps_total:
  "totalAdaValue s = sumCategoryValues (categoryValues s) \<Longrightarrow>
   totalAdaValue (foldl (valueAsset w tp) s as)
   = sumCategoryValues (categoryValues (foldl (valueAsset w tp) s as))"
  by (induction as arbitrary: s) (simp_all add: valueAsset_keeps_total)

lemma valuePortfolio_total:
  "totalAdaValue (valuePortfolio w info_opt)
   = sumCategoryValues (categoryValues (valuePortfolio w info_opt))"
proof (cases info_opt)
  case None
  then show ?thesis
    by (simp add: valuePortfolio_def emptySnapshot_def sumCategoryValues_def categories_def)
next
  case (Some info)
  let ?u = "real_of_int (case lovelace info of None \<Rightarrow> 0 | Some l \<Rightarrow> l) / 1000000"
  let ?s1 = "\<lparr>categoryValues = (categoryValues emptySnapshot)(ada := ?u),
              totalAdaValue = totalAdaValue emptySnapshot + ?u\<rparr>"
  have s1: "totalAdaValue ?s1 = sumCategoryValues (categoryValues ?s1)"
    by (simp add: emptySnapshot_def sumCategoryValues_def categories_def)
  show ?thesis
  proof (cases "assets info")
    case None
    with Some s1 show ?thesis by (simp add: valuePortfolio_def Let_def)
  next
    case (Some as)
    with \<open>info_opt = Some info\<close> foldl_valueAsset_keeps_total [OF s1] show ?thesis
      by (simp add: valuePortfolio_def Let_def)
  qed
qed

text \<open>The example wallet, evaluated.\<close>

lemma getTokenConfig_djed: "getTokenConfig djedUnit = Some (TRADING_TOKENS ! 2)"
  by (simp add: getTokenConfig_def TRADING_TOKENS_def djedUnit_def)

lemma getAssetDecimals_djed: "getAssetDecimals walletWorld djedUnit = 6"
  by (simp add: getAssetDecimals_def walletWorld_def marketDownWorld_def)

lemma asset_unit_djed: "asset_unit djedHolding = djedUnit"
  by (simp add: djedHolding_def)

lemma assetValueInAda_djed: "assetValueInAda walletWorld djedHolding 2 = 10"
  by (simp add: assetValueInAda_def djedHolding_def getTokenConfig_djed
      getAssetDecimals_djed resolveDecimals_def TRADING_TOKENS_def)

lemma assetCategory_djed: "assetCategory djedHolding = stable"
  by (simp add: assetCategory_def djedHolding_def getTokenConfig_djed TRADING_TOKENS_def)

lemma fetchAddressInfo_wallet: "fetchAddressInfo walletWorld = Some walletInfo"
  by (simp add: fetchAddressInfo_def walletWorld_def taptoolsGetAddressInfo_def)

lemma prices_wallet: "taptoolsGetTokenPrices walletWorld us = [(djedUnit, 2)]"
  by (simp add: taptoolsGetTokenPrices_def walletWorld_def)

lemma price_djed: "priceOrZero [(djedUnit, 2)] djedUnit = 2"
  by (simp add: priceOrZero_def orDefault_def)

lemma total_wallet:
  "totalAdaValue (valuePortfolio walletWorld (fetchAddressInfo walletWorld)) = 510"
  by (simp add: fetchAddressInfo_wallet valuePortfolio_def walletInfo_def prices_wallet
      valueAsset_def asset_unit_djed price_djed assetValueInAda_djed assetCategory_djed
      emptySnapshot_def Let_def)

text \<open>The earlier loop on the example wallet.\<close>

lemma classifyToken_djed: "classifyToken djedUnit = other"
  by (simp add: classifyToken_def TOKEN_POLICIES_stable_def TOKEN_POLICIES_defi_def
      djedUnit_def)

lemma legacyValueAsset_djed:
  "legacyValueAsset [(djedUnit, 2)] cv djedHolding
   = addAssign cv ''other'' (Num 10000000)"
  by (simp add: legacyValueAsset_def asset_unit_djed price_djed legacyAssetValueInAda_def
      classifyToken_djed Let_def djedHolding_def)

lemma legacyValuePortfolio_wallet:
  "legacyValuePortfolio walletWorld (fetchAddressInfo walletWorld)
   = ([(''ada'', Num 500), (''meme_coins'', Num 0), (''shards_talos'', Num 0),
       (''indy'', Num 0), (''big_others'', Num 0), (''new_positions'', Num 0),
       (''other'', NaN)], NaN)"
  by (simp add: fetchAddressInfo_wallet legacyValuePortfolio_def walletInfo_def
      prices_wallet legacyValueAsset_djed addAssign_def legacyCategoryValues_def Let_def)

text \<open>
  C3. In the snapshot the loop builds, the total equals the sum of the category values
  for every address info and every answer of the price and decimals lookups (exactly,
  in exact arithmetic). In the earlier version of the loop it does not: for the example
  wallet the classifier answers \<open>other\<close>, which is no key of the earlier
  \<^verbatim>\<open>categoryValues\<close>, the value added there is \<open>NaN\<close>, and so is the total,
  which is within no epsilon of anything.
\<close>

theorem earlier_loop_total_is_not_a_number:
  "totalAdaValue (valuePortfolio w info_opt)
     = sumCategoryValues (categoryValues (valuePortfolio w info_opt))
   \<and> legacyValuePortfolio walletWorld (fetchAddressInfo walletWorld)
     = ([(''ada'', Num 500), (''meme_coins'', Num 0), (''shards_talos'', Num 0),
         (''indy'', Num 0), (''big_others'', Num 0), (''new_positions'', Num 0),
         (''other'', NaN)], NaN)
   \<and> \<not> withinEpsilon (1 / 1000000)
         (snd (legacyValuePortfolio walletWorld (fetchAddressInfo walletWorld)))
         (foldl jsAdd (Num 0)
            (map snd (fst (legacyValuePortfolio walletWorld (fetchAddressInfo walletWorld)))))
   \<and> totalAdaValue (valuePortfolio walletWorld (fetchAddressInfo walletWorld)) = 510"
  using valuePortfolio_total [of w info_opt] total_wallet
  by (simp add: legacyValuePortfolio_wallet)

text \<open>
  With the token table as it stands no configuration carries decimals, so the loop
  values a priced asset as the specification says.
\<close>

lemma current_loop_asset_value:
  "assetValueInAda w asset price
   = real_of_int (asset_quantity asset)
       / 10 ^ specDecimals (getTokenConfig (asset_unit asset))
                (getAssetDecimals w (asset_unit asset))
     * price"
  by (cases "getTokenConfig (asset_unit asset)")
     (simp_all add: assetValueInAda_def resolveDecimals_def specDecimals_def
        table_has_no_decimals)

text \<open>
  The two resolutions differ only on a configuration that gives 0 decimals, which the
  source's \<^verbatim>\<open>||\<close> treats as missing.
\<close>

lemma resolveDecimals_zero_configured:
  "resolveDecimals (Some (cfg\<lparr>decimals := Some 0\<rparr>)) 6 = 6
   \<and> specDecimals (Some (cfg\<lparr>decimals := Some 0\<rparr>)) 6 = 0"
  by (simp add: resolveDecimals_def specDecimals_def)

text \<open>
  C8, evaluated on the example wallet. For 5000000 raw units of DJED (6 decimals) at a
  price of 2 ADA the specified contribution is 10 ADA. The loop adds 10 ADA to the
  token's category. The earlier version of the loop multiplies the raw quantity by the
  price, which gives 10000000 ADA, and adds that to a key its object does not have.
\<close>

theorem earlier_loop_values_asset_without_decimals:
  "legacyAssetValueInAda djedHolding 2 = 10000000
   \<and> legacyValueAsset [(djedUnit, 2)] legacyCategoryValues djedHolding
     = legacyCategoryValues @ [(''other'', NaN)]
   \<and> real_of_int (asset_quantity djedHolding)
       / 10 ^ specDecimals (getTokenConfig djedUnit) (getAssetDecimals walletWorld djedUnit)
       * 2 = 10
   \<and> categoryValues (valueAsset walletWorld [(djedUnit, 2)] emptySnapshot djedHolding) stable
     = 10"
proof -
  have "legacyAssetValueInAda djedHolding 2 = 10000000"
    by (simp add: legacyAssetValueInAda_def Let_def djedHolding_def)
  moreover have "legacyValueAsset [(djedUnit, 2)] legacyCategoryValues djedHolding
                 = legacyCategoryValues @ [(''other'', NaN)]"
    by (simp add: legacyValueAsset_djed addAssign_def legacyCategoryValues_def)
  moreover have "real_of_int (asset_quantity djedHolding)
       / 10 ^ specDecimals (getTokenConfig djedUnit) (getAssetDecimals walletWorld djedUnit)
       * 2 = 10"
    by (simp add: getTokenConfig_djed getAssetDecimals_djed specDecimals_def
        TRADING_TOKENS_def djedHolding_def)
  moreover have
    "categoryValues (valueAsset walletWorld [(djedUnit, 2)] emptySnapshot djedHolding) stable
       = 10"
    by (simp add: valueAsset_def asset_unit_djed price_djed assetValueInAda_djed
        assetCategory_djed emptySnapshot_def Let_def)
  ultimately show ?thesis by simp
qed

section \<open>Properties of the iteration\<close>

lemma decisionUnits_append:
  "decisionUnits (xs @ ys) = decisionUnits xs @ decisionUnits ys"
  by (induction xs rule: decisionUnits.induct) simp_all

lemma td_unit_buildTokenData: "td_unit (buildTokenData w t) = tok_unit t"
  by (simp add: buildTokenData_def)

lemma gateSizeExecute_no_decision_event:
  "gateSizeExecute info_opt s t d = Inr es \<Longrightarrow> decisionUnits es = []"
  by (auto simp: gateSizeExecute_def logAndExecute_def Let_def split: if_splits option.splits)

lemma decisionUnits_processToken:
  "decisionUnits (fst (processToken w info_opt s t)) = [tok_unit t]"
  by (auto simp: processToken_def Let_def td_unit_buildTokenData
      gateSizeExecute_no_decision_event split: option.splits sum.splits)

text \<open>What an event of one pass, and of the whole iteration, can be.\<close>

lemma processToken_events:
  assumes "e \<in> set (fst (processToken w info_opt s t))"
  shows "e = LlmDecisionRequested (buildTokenData w t)
         \<or> (\<exists>d es. gateSizeExecute info_opt s t d = Inr es \<and> e \<in> set es)"
  using assms
  by (auto simp: processToken_def Let_def split: option.splits sum.splits)

lemma forEachToken_events:
  "e \<in> set (fst (forEachToken w info_opt s ts))
   \<Longrightarrow> \<exists>t \<in> set ts. e \<in> set (fst (processToken w info_opt s t))"
proof (induction ts)
  case Nil
  then show ?case by simp
next
  case (Cons t ts)
  obtain es r where p: "processToken w info_opt s t = (es, r)" by (cases "processToken w info_opt s t")
  obtain es' r' where f: "forEachToken w info_opt s ts = (es', r')"
    by (cases "forEachToken w info_opt s ts")
  show ?case
  proof (cases r)
    case None
    with Cons p f show ?thesis by auto
  next
    case (Some err)
    with Cons.prems p show ?thesis by auto
  qed
qed

lemma loop_events:
  assumes "e \<in> set (loop w)"
  shows "e = NoTokensReturned \<or> (\<exists>err. e = MainLoopError err)
         \<or> (\<exists>t \<in> set (getTopTokens w).
               e \<in> set (fst (processToken w (fetchAddressInfo w)
                              (valuePortfolio w (fetchAddressInfo w)) t)))"
proof -
  obtain es r where b: "loopBody w = (es, r)" by (cases "loopBody w")
  from assms b have "e \<in> set es \<or> (\<exists>err. e = MainLoopError err)"
    by (cases r) (auto simp: loop_def)
  moreover have "e \<in> set es \<Longrightarrow> e = NoTokensReturned
      \<or> (\<exists>t \<in> set (getTopTokens w).
               e \<in> set (fst (processToken w (fetchAddressInfo w)
                              (valuePortfolio w (fetchAddressInfo w)) t)))"
  proof -
    assume e: "e \<in> set es"
    show ?thesis
    proof (cases "getTopTokens w = []")
      case True
      with b e show ?thesis by (auto simp: loopBody_def)
    next
      case False
      with b have "es = fst (forEachToken w (fetchAddressInfo w)
                        (valuePortfolio w (fetchAddressInfo w)) (getTopTokens w))"
        by (simp add: loopBody_def Let_def)
      with e forEachToken_events show ?thesis by blast
    qed
  qed
  ultimately show ?thesis by blast
qed

lemma gate_swap_amount:
  assumes "gateSizeExecute info_opt s t d = Inr es"
    and "ExecuteDexSwap dir a u \<in> set es"
  shows "1 \<le> a"
proof (cases "getTokenInfo (tok_unit t)")
  case None
  with assms show ?thesis
    by (auto simp: gateSizeExecute_def split: if_splits)
next
  case (Some cfg)
  from recommended_bounds [OF Some, of d] have "1 \<le> recommendedSize cfg d" by simp
  with assms Some show ?thesis
    by (auto simp: gateSizeExecute_def logAndExecute_def Let_def
        split: if_splits option.splits)
qed

lemma loop_swap_amount:
  assumes "ExecuteDexSwap dir a u \<in> set (loop w)"
  shows "1 \<le> a"
  using loop_events [OF assms] processToken_events gate_swap_amount by blast

lemma gate_never_skips_for_config:
  assumes "gateSizeExecute info_opt s t d = Inr es"
  shows "SkipNoTokenConfig x \<notin> set es"
  using assms getTokenInfo_not_None [of "tok_unit t"]
  by (auto simp: gateSizeExecute_def logAndExecute_def Let_def
      split: if_splits option.splits)

lemma loop_never_skips_for_config: "SkipNoTokenConfig x \<notin> set (loop w)"
proof
  assume "SkipNoTokenConfig x \<in> set (loop w)"
  from loop_events [OF this] processToken_events gate_never_skips_for_config
  show False by blast
qed

text \<open>A pass over a token whose answer can be read does not throw.\<close>

lemma gateSizeExecute_error_decision:
  "gateSizeExecute info_opt s t llmErrorDecision = Inr [SkipNoTrade (tok_ticker t)]"
  by (simp add: gateSizeExecute_def llmErrorDecision_def)

lemma gateSizeExecute_readable:
  "direction d \<noteq> None \<Longrightarrow> \<exists>es. gateSizeExecute info_opt s t d = Inr es"
  by (auto simp: gateSizeExecute_def logAndExecute_def Let_def split: option.splits)

lemma processToken_readable:
  assumes "answerReadable w t"
  shows "snd (processToken w info_opt s t) = None"
proof (cases "chat_completion w (buildTokenData w t)")
  case (Inl err)
  then show ?thesis
    by (simp add: processToken_def Let_def getLlmTradingDecision_def
        gateSizeExecute_error_decision)
next
  case (Inr answer)
  with assms obtain d where d: "answer = Some d" "direction d \<noteq> None"
    by (cases answer) (auto simp: answerReadable_def)
  from gateSizeExecute_readable [OF d(2)]
  obtain es where "gateSizeExecute info_opt s t d = Inr es" by blast
  with Inr d show ?thesis
    by (simp add: processToken_def Let_def getLlmTradingDecision_def)
qed

lemma forEachToken_no_throw:
  "\<forall>t \<in> set ts. snd (processToken w info_opt s t) = None
   \<Longrightarrow> snd (forEachToken w info_opt s ts) = None
       \<and> decisionUnits (fst (forEachToken w info_opt s ts)) = map tok_unit ts"
proof (induction ts)
  case Nil
  then show ?case by simp
next
  case (Cons t ts)
  obtain es where p: "processToken w info_opt s t = (es, None)"
    using Cons.prems by (cases "processToken w info_opt s t") auto
  obtain es' r' where f: "forEachToken w info_opt s ts = (es', r')"
    by (cases "forEachToken w info_opt s ts")
  from Cons f have "r' = None" "decisionUnits es' = map tok_unit ts" by auto
  moreover from p decisionUnits_processToken [of w info_opt s t]
  have "decisionUnits es = [tok_unit t]" by simp
  ultimately show ?case using p f by (simp add: decisionUnits_append)
qed

lemma forEachToken_mem:
  "\<forall>t \<in> set ts. snd (processToken w info_opt s t) = None \<Longrightarrow> t \<in> set ts
   \<Longrightarrow> e \<in> set (fst (processToken w info_opt s t))
   \<Longrightarrow> e \<in> set (fst (forEachToken w info_opt s ts))"
proof (induction ts)
  case Nil
  then show ?case by simp
next
  case (Cons t' ts)
  obtain es where p: "processToken w info_opt s t' = (es, None)"
    using Cons.prems(1) by (cases "processToken w info_opt s t'") auto
  obtain es' r' where f: "forEachToken w info_opt s ts = (es', r')"
    by (cases "forEachToken w info_opt s ts")
  from Cons p f show ?case by auto
qed

lemma loop_readable:
  assumes "\<forall>t \<in> set (getTopTokens w). answerReadable w t"
  shows "snd (loopBody w) = None"
    and "loop w = fst (loopBody w)"
    and "decisionUnits (loop w) = map tok_unit (getTopTokens w)"
proof -
  let ?i = "fetchAddressInfo w"
  let ?s = "valuePortfolio w ?i"
  from assms have "\<forall>t \<in> set (getTopTokens w). snd (processToken w ?i ?s t) = None"
    by (simp add: processToken_readable)
  from forEachToken_no_throw [OF this]
  have f: "snd (forEachToken w ?i ?s (getTopTokens w)) = None"
    "decisionUnits (fst (forEachToken w ?i ?s (getTopTokens w))) = map tok_unit (getTopTokens w)"
    by simp_all
  from f(1) show n: "snd (loopBody w) = None" by (simp add: loopBody_def Let_def)
  then show l: "loop w = fst (loopBody w)"
    by (cases "loopBody w") (simp add: loop_def)
  from f(2) show "decisionUnits (loop w) = map tok_unit (getTopTokens w)"
    unfolding l by (simp add: loopBody_def Let_def)
qed

lemma loop_mem:
  assumes "\<forall>t \<in> set (getTopTokens w). answerReadable w t"
    and "t \<in> set (getTopTokens w)"
    and "e \<in> set (fst (processToken w (fetchAddressInfo w)
                          (valuePortfolio w (fetchAddressInfo w)) t))"
  shows "e \<in> set (loop w)"
proof -
  let ?i = "fetchAddressInfo w"
  let ?s = "valuePortfolio w ?i"
  from assms(1) have "\<forall>t \<in> set (getTopTokens w). snd (processToken w ?i ?s t) = None"
    by (simp add: processToken_readable)
  from forEachToken_mem [OF this assms(2) assms(3)]
  have "e \<in> set (fst (forEachToken w ?i ?s (getTopTokens w)))" .
  moreover from assms(2) have "getTopTokens w \<noteq> []" by auto
  ultimately show ?thesis
    unfolding loop_readable(2) [OF assms(1)] by (simp add: loopBody_def Let_def)
qed

text \<open>The address variable is read by \<open>fetchAddressInfo\<close> only.\<close>

lemma taptoolsGetTokenPrices_address:
  "taptoolsGetTokenPrices (w\<lparr>CARDANO_ADDRESS := x\<rparr>) us = taptoolsGetTokenPrices w us"
  by (simp add: taptoolsGetTokenPrices_def)

lemma taptoolsGetTopVolumeTokens_address:
  "taptoolsGetTopVolumeTokens (w\<lparr>CARDANO_ADDRESS := x\<rparr>) n = taptoolsGetTopVolumeTokens w n"
  by (simp add: taptoolsGetTopVolumeTokens_def)

lemma getTopTokens_address: "getTopTokens (w\<lparr>CARDANO_ADDRESS := x\<rparr>) = getTopTokens w"
  by (simp only: getTopTokens_def taptoolsGetTokenPrices_address
      taptoolsGetTopVolumeTokens_address)

lemma processToken_address:
  "processToken (w\<lparr>CARDANO_ADDRESS := x\<rparr>) info_opt s t = processToken w info_opt s t"
  by (simp add: processToken_def buildTokenData_def getLlmTradingDecision_def
      taptoolsGetTokenPrices_def taptoolsGetTokenPriceChg_def taptoolsGetTokenPools_def
      taptoolsGetTokenOhlcv_def taptoolsGetTokenTradingStats_def taptoolsGetTokenMcap_def)

lemma forEachToken_address:
  "forEachToken (w\<lparr>CARDANO_ADDRESS := x\<rparr>) info_opt s ts = forEachToken w info_opt s ts"
  by (induction ts) (simp_all add: processToken_address)

lemma loopBody_without_address_info:
  assumes "fetchAddressInfo w = None"
  shows "loopBody w = (let tokens = getTopTokens w
                       in if tokens = [] then ([NoTokensReturned], None)
                          else forEachToken w None emptySnapshot tokens)"
  using assms by (simp add: loopBody_def Let_def valuePortfolio_def)

lemma failed_lookup_no_address_info:
  assumes "CARDANO_ADDRESS w = Some a" and "get_address_info w a = Inl err"
  shows "fetchAddressInfo w = None"
  using assms by (simp add: fetchAddressInfo_def taptoolsGetAddressInfo_def)

lemma failed_lookup_like_no_address:
  assumes "CARDANO_ADDRESS w = Some a" and "get_address_info w a = Inl err"
  shows "loop w = loop (w\<lparr>CARDANO_ADDRESS := None\<rparr>)"
proof -
  have "fetchAddressInfo (w\<lparr>CARDANO_ADDRESS := None\<rparr>) = None"
    by (simp add: fetchAddressInfo_def)
  with failed_lookup_no_address_info [OF assms]
  have "loopBody w = loopBody (w\<lparr>CARDANO_ADDRESS := None\<rparr>)"
    by (simp add: loopBody_without_address_info getTopTokens_address forEachToken_address
        Let_def)
  then show ?thesis by (simp add: loop_def)
qed

text \<open>The example worlds, evaluated.\<close>

lemma getTopTokens_marketDown:
  "getTopTokens marketDownWorld
   = map (\<lambda>token. \<lparr>tok_price = 0, tok_ticker = ticker token,
                    tok_unit = unit token, tok_volume = 0\<rparr>) TRADING_TOKENS"
  by (simp add: getTopTokens_def ACTIVE_TOKEN_SOURCE_def getAllTradingTokens_def
      TRADING_TOKENS_def taptoolsGetTokenPrices_def marketDownWorld_def priceOrZero_def
      orDefault_def)

lemma snek_in_marketDown: "snekToken \<in> set (getTopTokens marketDownWorld)"
  by (simp add: getTopTokens_marketDown TRADING_TOKENS_def snekToken_def snekUnit_def)

lemma tok_units_marketDown:
  "map tok_unit (getTopTokens marketDownWorld) = map unit TRADING_TOKENS"
  by (simp add: getTopTokens_marketDown)

lemma snekToken_fields: "tok_unit snekToken = snekUnit" "tok_ticker snekToken = ''SNEK''"
  by (simp_all add: snekToken_def)

lemma getTokenInfo_snek: "getTokenInfo snekUnit = Some snekTokenInfo"
  by (simp add: getTokenInfo_def getTokenConfigByTicker_def TRADING_TOKENS_def snekUnit_def
      snekTokenInfo_def)

lemma buildTokenData_marketDown:
  "buildTokenData marketDownWorld snekToken
   = \<lparr>td_ticker = ''SNEK'', td_unit = snekUnit, volume_24h = 0, td_price = 0,
      aggregated_price = None, price_change = [], pools = [], ohlcv = [],
      trading_stats = [], mcap = []\<rparr>"
  by (simp add: buildTokenData_def taptoolsGetTokenPrices_def taptoolsGetTokenPriceChg_def
      taptoolsGetTokenPools_def taptoolsGetTokenOhlcv_def taptoolsGetTokenTradingStats_def
      taptoolsGetTokenMcap_def marketDownWorld_def snekToken_def)

lemma gateSizeExecute_approving:
  "gateSizeExecute None s snekToken approvingDecision
   = Inr [ExecuteDexSwap buy 100 snekUnit]"
  by (simp add: gateSizeExecute_def confidenceBelowThreshold_def logAndExecute_def
      toDirection_def approvingDecision_def snekToken_def getTokenInfo_snek
      snekTokenInfo_def recommendedSize_def minSize_def maxSize_def orDefault_def)

lemma decision_marketDown:
  "getLlmTradingDecision marketDownWorld td = Some approvingDecision"
  by (simp add: getLlmTradingDecision_def marketDownWorld_def)

lemma processToken_marketDown:
  "processToken marketDownWorld None s snekToken
   = ([LlmDecisionRequested (buildTokenData marketDownWorld snekToken),
       ExecuteDexSwap buy 100 snekUnit], None)"
  by (simp add: processToken_def Let_def decision_marketDown gateSizeExecute_approving)

lemma readable_marketDown: "answerReadable marketDownWorld t"
  by (simp add: answerReadable_def marketDownWorld_def approvingDecision_def)

lemma fetchAddressInfo_marketDown: "fetchAddressInfo marketDownWorld = None"
  by (simp add: fetchAddressInfo_def marketDownWorld_def)

lemma loop_marketDown_buys_snek:
  "ExecuteDexSwap buy 100 snekUnit \<in> set (loop marketDownWorld)"
proof -
  have r: "\<forall>t \<in> set (getTopTokens marketDownWorld). answerReadable marketDownWorld t"
    by (simp add: readable_marketDown)
  have "ExecuteDexSwap buy 100 snekUnit
          \<in> set (fst (processToken marketDownWorld (fetchAddressInfo marketDownWorld)
                    (valuePortfolio marketDownWorld (fetchAddressInfo marketDownWorld))
                    snekToken))"
    by (simp add: fetchAddressInfo_marketDown processToken_marketDown)
  from loop_mem [OF r snek_in_marketDown this] show ?thesis .
qed

lemma addressDown_facts:
  "CARDANO_ADDRESS addressDownWorld = Some ''addr1qxy''"
  "get_address_info addressDownWorld ''addr1qxy'' = Inl (RequestFailed ''timeout'')"
  "addressDownWorld\<lparr>CARDANO_ADDRESS := None\<rparr> = marketDownWorld"
  by (simp_all add: addressDownWorld_def marketDownWorld_def)

text \<open>The example wallet, run through the loop: the room left in \<open>other\<close> caps the buy.\<close>

lemma snapshot_wallet:
  "valuePortfolio walletWorld (fetchAddressInfo walletWorld) = walletSnapshot"
  by (simp add: fetchAddressInfo_wallet valuePortfolio_def walletInfo_def prices_wallet
      valueAsset_def asset_unit_djed price_djed assetValueInAda_djed assetCategory_djed
      emptySnapshot_def walletSnapshot_def Let_def)

lemma snek_in_wallet: "snekToken \<in> set (getTopTokens walletWorld)"
  by (simp add: getTopTokens_def ACTIVE_TOKEN_SOURCE_def getAllTradingTokens_def
      TRADING_TOKENS_def prices_wallet priceOrZero_def orDefault_def snekToken_def
      snekUnit_def djedUnit_def)

lemma decision_wallet: "getLlmTradingDecision walletWorld td = Some approvingDecision"
  by (simp add: getLlmTradingDecision_def walletWorld_def marketDownWorld_def)

lemma readable_wallet: "answerReadable walletWorld t"
  by (simp add: answerReadable_def walletWorld_def marketDownWorld_def approvingDecision_def)

lemma gate_wallet:
  "gateSizeExecute (Some walletInfo) walletSnapshot snekToken approvingDecision
   = Inr [ExecuteDexSwap buy (51 / 2) snekUnit]"
  by (simp add: gateSizeExecute_def confidenceBelowThreshold_def logAndExecute_def
      sizerDirection_def toDirection_def approvingDecision_def snekToken_def
      getTokenInfo_snek snekTokenInfo_def recommendedSize_def minSize_def maxSize_def
      orDefault_def adjustTradeForPortfolio_def walletSnapshot_def Let_def)

lemma loop_wallet_buys_snek: "ExecuteDexSwap buy (51 / 2) snekUnit \<in> set (loop walletWorld)"
proof -
  have r: "\<forall>t \<in> set (getTopTokens walletWorld). answerReadable walletWorld t"
    by (simp add: readable_wallet)
  have "ExecuteDexSwap buy (51 / 2) snekUnit
          \<in> set (fst (processToken walletWorld (fetchAddressInfo walletWorld)
                    (valuePortfolio walletWorld (fetchAddressInfo walletWorld)) snekToken))"
    unfolding snapshot_wallet
    by (simp add: processToken_def Let_def decision_wallet fetchAddressInfo_wallet
        gate_wallet)
  from loop_mem [OF r snek_in_wallet this] show ?thesis .
qed

text \<open>
  An answer \<^verbatim>\<open>null\<close> for the first token ends the iteration there: one decision
  requested out of six, then the error of the outer \<^verbatim>\<open>catch\<close>.
\<close>

lemma getTopTokens_nullAnswer: "getTopTokens nullAnswerWorld = getTopTokens marketDownWorld"
proof -
  have "taptoolsGetTokenPrices nullAnswerWorld = taptoolsGetTokenPrices marketDownWorld"
    by (rule ext) (simp add: taptoolsGetTokenPrices_def nullAnswerWorld_def)
  moreover have
    "taptoolsGetTopVolumeTokens nullAnswerWorld = taptoolsGetTopVolumeTokens marketDownWorld"
    by (rule ext) (simp add: taptoolsGetTopVolumeTokens_def nullAnswerWorld_def)
  ultimately show ?thesis by (simp only: getTopTokens_def)
qed

lemma processToken_nullAnswer:
  "processToken nullAnswerWorld info_opt s t
   = ([LlmDecisionRequested (buildTokenData nullAnswerWorld t)],
      Some (TypeError ''decision.trade''))"
  by (simp add: processToken_def Let_def getLlmTradingDecision_def nullAnswerWorld_def)

lemma null_answer_aborts_iteration:
  "decisionUnits (loop nullAnswerWorld) = [unit (TRADING_TOKENS ! 0)]
   \<and> last (loop nullAnswerWorld) = MainLoopError (TypeError ''decision.trade'')
   \<and> length (getTopTokens nullAnswerWorld) = 6"
  by (simp add: loop_def loopBody_def Let_def getTopTokens_nullAnswer getTopTokens_marketDown
      TRADING_TOKENS_def processToken_nullAnswer td_unit_buildTokenData)

text \<open>
  C4. A recommendation whose confidence is below 0.6 produces nothing but the skip,
  whatever its direction and size: the pass over its token has no swap and does not
  throw. For a recommendation that passes both gates, the
  token's configuration has the trade sizes 10 and 200, and the amount the loop goes on
  with is the proposed size (the minimum when none is proposed) clamped into them:
  without address info it is the amount of the swap, with address info it is the
  amount handed to the sizer, whose answer decides between the skip and the swap.
\<close>

theorem gate_rejects_low_confidence_and_clamps_size:
  "(confidence d = Some c \<longrightarrow> c < 0.6 \<longrightarrow>
      gateSizeExecute info_opt s t d
      = Inr (if trade d = Some ''false'' then [SkipNoTrade (tok_ticker t)]
             else [SkipLowConfidence (tok_ticker t) (Some c)]))
   \<and> (chat_completion w (buildTokenData w t) = Inr (Some d) \<longrightarrow>
       confidence d = Some c \<longrightarrow> c < 0.6 \<longrightarrow>
        swapsOf (fst (processToken w info_opt s t)) = []
        \<and> snd (processToken w info_opt s t) = None)
   \<and> (trade d \<noteq> Some ''false'' \<longrightarrow> \<not> confidenceBelowThreshold d \<longrightarrow>
       direction d = Some ds \<longrightarrow> getTokenInfo (tok_unit t) = Some cfg \<longrightarrow>
        minTradeSize cfg = Some 10 \<and> maxTradeSize cfg = Some 200
        \<and> recommendedSize cfg d = clampInto 10 200 (orDefault (size_ada d) 10)
        \<and> gateSizeExecute None s t d
          = Inr [ExecuteDexSwap (toDirection ds)
                   (clampInto 10 200 (orDefault (size_ada d) 10)) (tok_unit t)]
        \<and> gateSizeExecute (Some info) s t d
          = Inr (if adjustTradeForPortfolio (toDirection ds) (category cfg)
                      (clampInto 10 200 (orDefault (size_ada d) 10)) (totalAdaValue s)
                      (categoryValues s (category cfg)) (categoryValues s ada) < 1
                 then [SkipFinalAmountBelowOne]
                 else [ExecuteDexSwap (toDirection ds)
                         (adjustTradeForPortfolio (toDirection ds) (category cfg)
                            (clampInto 10 200 (orDefault (size_ada d) 10)) (totalAdaValue s)
                            (categoryValues s (category cfg)) (categoryValues s ada))
                         (tok_unit t)]))
   \<and> 10 \<le> clampInto 10 200 x \<and> clampInto 10 200 x \<le> 200
   \<and> (10 \<le> x \<longrightarrow> x \<le> 200 \<longrightarrow> clampInto 10 200 x = x)"
proof (intro conjI impI)
  assume "confidence d = Some c" and "c < 0.6"
  then show "gateSizeExecute info_opt s t d
      = Inr (if trade d = Some ''false'' then [SkipNoTrade (tok_ticker t)]
             else [SkipLowConfidence (tok_ticker t) (Some c)])"
    by (simp add: gateSizeExecute_def confidenceBelowThreshold_def)
next
  assume "chat_completion w (buildTokenData w t) = Inr (Some d)"
    and "confidence d = Some c" and "c < 0.6"
  then show "swapsOf (fst (processToken w info_opt s t)) = []"
    and "snd (processToken w info_opt s t) = None"
    by (simp_all add: processToken_def Let_def getLlmTradingDecision_def
        gateSizeExecute_def confidenceBelowThreshold_def)
next
  assume pass: "trade d \<noteq> Some ''false''" "\<not> confidenceBelowThreshold d"
    and dir: "direction d = Some ds" and cfg: "getTokenInfo (tok_unit t) = Some cfg"
  from getTokenInfo_sizes [OF cfg]
  show "minTradeSize cfg = Some 10" and "maxTradeSize cfg = Some 200" by simp_all
  from sizes_of_token_info [OF cfg]
  show r: "recommendedSize cfg d = clampInto 10 200 (orDefault (size_ada d) 10)"
    by (simp add: recommendedSize_def clampInto_def min_def max_def)
  from pass dir cfg
  show "gateSizeExecute None s t d
          = Inr [ExecuteDexSwap (toDirection ds)
                   (clampInto 10 200 (orDefault (size_ada d) 10)) (tok_unit t)]"
    by (simp add: gateSizeExecute_def logAndExecute_def r)
  from pass dir cfg
  show "gateSizeExecute (Some info) s t d
          = Inr (if adjustTradeForPortfolio (toDirection ds) (category cfg)
                      (clampInto 10 200 (orDefault (size_ada d) 10)) (totalAdaValue s)
                      (categoryValues s (category cfg)) (categoryValues s ada) < 1
                 then [SkipFinalAmountBelowOne]
                 else [ExecuteDexSwap (toDirection ds)
                         (adjustTradeForPortfolio (toDirection ds) (category cfg)
                            (clampInto 10 200 (orDefault (size_ada d) 10)) (totalAdaValue s)
                            (categoryValues s (category cfg)) (categoryValues s ada))
                         (tok_unit t)])"
    by (simp add: gateSizeExecute_def logAndExecute_def sizerDirection_def r Let_def)
next
  show "10 \<le> clampInto 10 200 x" and "clampInto 10 200 x \<le> 200"
    by (simp_all add: clampInto_def)
next
  assume "10 \<le> x" and "x \<le> 200"
  then show "clampInto 10 200 x = x" by (simp add: clampInto_def)
qed

theorem gate_rejects_low_confidence_and_clamps_size_witness:
  "confidence lowConfidenceDecision = Some (4 / 10)
   \<and> gateSizeExecute None emptySnapshot snekToken lowConfidenceDecision
     = Inr [SkipLowConfidence ''SNEK'' (Some (4 / 10))]
   \<and> chat_completion lowConfidenceWorld (buildTokenData lowConfidenceWorld snekToken)
     = Inr (Some lowConfidenceDecision)
   \<and> swapsOf (fst (processToken lowConfidenceWorld None emptySnapshot snekToken)) = []
   \<and> getTokenInfo (tok_unit snekToken) = Some snekTokenInfo
   \<and> recommendedSize snekTokenInfo oversizedDecision = 200
   \<and> gateSizeExecute None emptySnapshot snekToken oversizedDecision
     = Inr [ExecuteDexSwap buy 200 snekUnit]
   \<and> gateSizeExecute (Some walletInfo) walletSnapshot snekToken oversizedDecision
     = Inr [ExecuteDexSwap buy (51 / 2) snekUnit]
   \<and> clampInto 10 200 150 = 150"
proof -
  have low: "confidence lowConfidenceDecision = Some (4 / 10)" "(4 / 10 :: real) < 0.6"
    "trade lowConfidenceDecision \<noteq> Some ''false''"
    by (simp_all add: lowConfidenceDecision_def)
  have cfg: "getTokenInfo (tok_unit snekToken) = Some snekTokenInfo"
    by (simp add: snekToken_fields getTokenInfo_snek)
  have pass: "trade oversizedDecision \<noteq> Some ''false''"
    "\<not> confidenceBelowThreshold oversizedDecision"
    "direction oversizedDecision = Some ''buy''"
    "orDefault (size_ada oversizedDecision) 10 = 1000"
    by (simp_all add: oversizedDecision_def confidenceBelowThreshold_def orDefault_def)
  have sized: "adjustTradeForPortfolio buy other 200 510 0 500 = 51 / 2"
    by (simp add: adjustTradeForPortfolio_def Let_def)
  from gate_rejects_low_confidence_and_clamps_size
         [of lowConfidenceDecision "4 / 10" None emptySnapshot snekToken]
       low
  have a: "gateSizeExecute None emptySnapshot snekToken lowConfidenceDecision
           = Inr [SkipLowConfidence ''SNEK'' (Some (4 / 10))]"
    by (simp add: snekToken_fields)
  have ans: "chat_completion lowConfidenceWorld (buildTokenData lowConfidenceWorld snekToken)
             = Inr (Some lowConfidenceDecision)"
    by (simp add: lowConfidenceWorld_def)
  from gate_rejects_low_confidence_and_clamps_size
         [where d = lowConfidenceDecision and c = "4 / 10" and w = lowConfidenceWorld
            and t = snekToken and info_opt = None and s = emptySnapshot]
       low ans
  have a': "swapsOf (fst (processToken lowConfidenceWorld None emptySnapshot snekToken)) = []"
    by simp
  from gate_rejects_low_confidence_and_clamps_size
         [where d = oversizedDecision and ds = "''buy''" and t = snekToken
            and cfg = snekTokenInfo and s = emptySnapshot and x = 150]
       pass cfg
  have b: "recommendedSize snekTokenInfo oversizedDecision = 200"
    "gateSizeExecute None emptySnapshot snekToken oversizedDecision
     = Inr [ExecuteDexSwap buy 200 snekUnit]"
    "clampInto 10 200 150 = 150"
    by (simp_all add: snekToken_fields toDirection_def clampInto_def)
  from gate_rejects_low_confidence_and_clamps_size
         [where d = oversizedDecision and ds = "''buy''" and t = snekToken
            and cfg = snekTokenInfo and s = walletSnapshot and info = walletInfo]
       pass cfg sized
  have c: "gateSizeExecute (Some walletInfo) walletSnapshot snekToken oversizedDecision
           = Inr [ExecuteDexSwap buy (51 / 2) snekUnit]"
    by (simp add: snekToken_fields toDirection_def clampInto_def snekTokenInfo_def
        walletSnapshot_def)
  from low(1) a ans a' cfg b c show ?thesis by simp
qed

lemma getTopTokens_allDown: "getTopTokens allDownWorld = getTopTokens marketDownWorld"
proof -
  have "taptoolsGetTokenPrices allDownWorld = taptoolsGetTokenPrices marketDownWorld"
    by (rule ext) (simp add: taptoolsGetTokenPrices_def allDownWorld_def)
  moreover have
    "taptoolsGetTopVolumeTokens allDownWorld = taptoolsGetTopVolumeTokens marketDownWorld"
    by (rule ext) (simp add: taptoolsGetTopVolumeTokens_def allDownWorld_def)
  ultimately show ?thesis by (simp only: getTopTokens_def)
qed

lemma buildTokenData_allDown:
  "buildTokenData allDownWorld snekToken = buildTokenData marketDownWorld snekToken"
  by (simp add: buildTokenData_def taptoolsGetTokenPrices_def taptoolsGetTokenPriceChg_def
      taptoolsGetTokenPools_def taptoolsGetTokenOhlcv_def taptoolsGetTokenTradingStats_def
      taptoolsGetTokenMcap_def allDownWorld_def)

lemma allDown_requests_fail:
  "post_token_prices allDownWorld us = Inl (RequestFailed ''timeout'')"
  "get_prices_chg allDownWorld u tf = Inl (RequestFailed ''timeout'')"
  "get_pools allDownWorld u n = Inl (RequestFailed ''timeout'')"
  "get_ohlcv allDownWorld u i n = Inl (RequestFailed ''timeout'')"
  "get_trading_stats allDownWorld u tf = Inl (RequestFailed ''timeout'')"
  "get_mcap allDownWorld u = Inl (RequestFailed ''timeout'')"
  "chat_completion allDownWorld td = Inl (JsonSyntaxError ''Unexpected token'')"
  by (simp_all add: allDownWorld_def marketDownWorld_def)

lemma readable_allDown: "answerReadable allDownWorld t"
  by (simp add: answerReadable_def allDown_requests_fail)

text \<open>
  C5, as the code has it. Take an iteration in which every answer of the decision
  source can be read to the end of the loop body (the request failed, or the answer is
  an object with a string for a direction). Then the iteration does not throw and a
  decision is requested for every token, in order. A failed market-data request leaves
  its field of the token data empty and the token goes on to the decision source; a
  failed decision request makes the token a skip. (The sizer is arithmetic and has no
  failure of its own.)
\<close>

theorem per_token_failures_do_not_abort_iteration:
  "((\<forall>tok \<in> set (getTopTokens w). answerReadable w tok) \<longrightarrow>
      snd (loopBody w) = None
      \<and> decisionUnits (loop w) = map tok_unit (getTopTokens w))
   \<and> (post_token_prices w [tok_unit t] = Inl e1 \<longrightarrow>
        aggregated_price (buildTokenData w t) = None)
   \<and> (get_prices_chg w (tok_unit t) ''1h,4h,24h'' = Inl e2 \<longrightarrow>
        price_change (buildTokenData w t) = [])
   \<and> (get_pools w (tok_unit t) 1 = Inl e3 \<longrightarrow> pools (buildTokenData w t) = [])
   \<and> (get_ohlcv w (tok_unit t) ''1h'' 24 = Inl e4 \<longrightarrow> ohlcv (buildTokenData w t) = [])
   \<and> (get_trading_stats w (tok_unit t) ''24h'' = Inl e5 \<longrightarrow>
        trading_stats (buildTokenData w t) = [])
   \<and> (get_mcap w (tok_unit t) = Inl e6 \<longrightarrow> mcap (buildTokenData w t) = [])
   \<and> (chat_completion w (buildTokenData w t) = Inl e7 \<longrightarrow>
        processToken w info_opt s t
        = ([LlmDecisionRequested (buildTokenData w t), SkipNoTrade (tok_ticker t)], None))"
proof (intro conjI impI)
  assume r: "\<forall>tok \<in> set (getTopTokens w). answerReadable w tok"
  from loop_readable(1) [OF r] show "snd (loopBody w) = None" .
  from loop_readable(3) [OF r]
  show "decisionUnits (loop w) = map tok_unit (getTopTokens w)" .
next
  assume "post_token_prices w [tok_unit t] = Inl e1"
  then show "aggregated_price (buildTokenData w t) = None"
    by (simp add: buildTokenData_def taptoolsGetTokenPrices_def)
next
  assume "get_prices_chg w (tok_unit t) ''1h,4h,24h'' = Inl e2"
  then show "price_change (buildTokenData w t) = []"
    by (simp add: buildTokenData_def taptoolsGetTokenPriceChg_def)
next
  assume "get_pools w (tok_unit t) 1 = Inl e3"
  then show "pools (buildTokenData w t) = []"
    by (simp add: buildTokenData_def taptoolsGetTokenPools_def)
next
  assume "get_ohlcv w (tok_unit t) ''1h'' 24 = Inl e4"
  then show "ohlcv (buildTokenData w t) = []"
    by (simp add: buildTokenData_def taptoolsGetTokenOhlcv_def)
next
  assume "get_trading_stats w (tok_unit t) ''24h'' = Inl e5"
  then show "trading_stats (buildTokenData w t) = []"
    by (simp add: buildTokenData_def taptoolsGetTokenTradingStats_def)
next
  assume "get_mcap w (tok_unit t) = Inl e6"
  then show "mcap (buildTokenData w t) = []"
    by (simp add: buildTokenData_def taptoolsGetTokenMcap_def)
next
  assume "chat_completion w (buildTokenData w t) = Inl e7"
  then show "processToken w info_opt s t
             = ([LlmDecisionRequested (buildTokenData w t), SkipNoTrade (tok_ticker t)], None)"
    by (simp add: processToken_def Let_def getLlmTradingDecision_def
        gateSizeExecute_error_decision)
qed

theorem per_token_failures_do_not_abort_iteration_witness:
  "snd (loopBody allDownWorld) = None
   \<and> decisionUnits (loop allDownWorld) = map unit TRADING_TOKENS
   \<and> snd (loopBody marketDownWorld) = None
   \<and> decisionUnits (loop marketDownWorld) = map unit TRADING_TOKENS
   \<and> get_prices_chg allDownWorld (tok_unit snekToken) ''1h,4h,24h''
       = Inl (RequestFailed ''timeout'')
   \<and> price_change (buildTokenData allDownWorld snekToken) = []
   \<and> chat_completion allDownWorld (buildTokenData allDownWorld snekToken)
       = Inl (JsonSyntaxError ''Unexpected token'')
   \<and> processToken allDownWorld None emptySnapshot snekToken
       = ([LlmDecisionRequested (buildTokenData marketDownWorld snekToken),
           SkipNoTrade ''SNEK''], None)"
proof -
  have ra: "\<forall>tok \<in> set (getTopTokens allDownWorld). answerReadable allDownWorld tok"
    by (simp add: readable_allDown)
  have rm: "\<forall>tok \<in> set (getTopTokens marketDownWorld). answerReadable marketDownWorld tok"
    by (simp add: readable_marketDown)
  from per_token_failures_do_not_abort_iteration
         [where w = allDownWorld and t = snekToken
            and ?e1.0 = "RequestFailed ''timeout''" and ?e2.0 = "RequestFailed ''timeout''"
            and ?e3.0 = "RequestFailed ''timeout''" and ?e4.0 = "RequestFailed ''timeout''"
            and ?e5.0 = "RequestFailed ''timeout''" and ?e6.0 = "RequestFailed ''timeout''"
            and ?e7.0 = "JsonSyntaxError ''Unexpected token''"
            and info_opt = None and s = emptySnapshot]
       ra
  have a: "snd (loopBody allDownWorld) = None"
    "decisionUnits (loop allDownWorld) = map unit TRADING_TOKENS"
    "price_change (buildTokenData allDownWorld snekToken) = []"
    "processToken allDownWorld None emptySnapshot snekToken
       = ([LlmDecisionRequested (buildTokenData marketDownWorld snekToken),
           SkipNoTrade ''SNEK''], None)"
    by (simp_all add: allDown_requests_fail getTopTokens_allDown tok_units_marketDown
        buildTokenData_allDown snekToken_fields)
  from per_token_failures_do_not_abort_iteration [where w = marketDownWorld] rm
  have b: "snd (loopBody marketDownWorld) = None"
    "decisionUnits (loop marketDownWorld) = map unit TRADING_TOKENS"
    by (simp_all add: tok_units_marketDown)
  from a b show ?thesis by (simp add: allDown_requests_fail)
qed

text \<open>
  C5 as first stated says a token whose market-data request fails is skipped. It is
  not: with every market-data request failing and a decision source that approves,
  the iteration still buys the token.
\<close>

theorem failed_market_data_does_not_skip_token_counterexample:
  "get_prices_chg marketDownWorld (tok_unit snekToken) ''1h,4h,24h''
     = Inl (RequestFailed ''timeout'')
   \<and> snekToken \<in> set (getTopTokens marketDownWorld)
   \<and> ExecuteDexSwap buy 100 (tok_unit snekToken) \<in> set (loop marketDownWorld)"
  using snek_in_marketDown loop_marketDown_buys_snek
  by (simp add: marketDownWorld_def snekToken_def)

text \<open>
  C6, as the code has it. When an address is configured and its lookup fails, the
  iteration runs exactly as it does with no address configured: every token is
  evaluated against the empty snapshot and no call of the sizer is made.
\<close>

theorem failed_address_lookup_runs_without_constraints:
  assumes "CARDANO_ADDRESS w = Some a" and "get_address_info w a = Inl err"
  shows "loop w = loop (w\<lparr>CARDANO_ADDRESS := None\<rparr>)
         \<and> loopBody w = (let tokens = getTopTokens w
                          in if tokens = [] then ([NoTokensReturned], None)
                             else forEachToken w None emptySnapshot tokens)"
  using failed_lookup_like_no_address [OF assms]
        loopBody_without_address_info [OF failed_lookup_no_address_info [OF assms]]
  by simp

theorem failed_address_lookup_runs_without_constraints_witness:
  "CARDANO_ADDRESS addressDownWorld = Some ''addr1qxy''
   \<and> get_address_info addressDownWorld ''addr1qxy'' = Inl (RequestFailed ''timeout'')
   \<and> loop addressDownWorld = loop marketDownWorld"
  using failed_address_lookup_runs_without_constraints
          [OF addressDown_facts(1) addressDown_facts(2)]
  by (simp add: addressDown_facts)

text \<open>
  C6 as first stated says the iteration ends early, with no token traded, when the
  lookup of a configured address fails. It does not: the iteration goes on and buys.
\<close>

theorem failed_address_lookup_still_trades_counterexample:
  "CARDANO_ADDRESS addressDownWorld = Some ''addr1qxy''
   \<and> get_address_info addressDownWorld ''addr1qxy'' = Inl (RequestFailed ''timeout'')
   \<and> ExecuteDexSwap buy 100 snekUnit \<in> set (loop addressDownWorld)"
  using failed_lookup_like_no_address [OF addressDown_facts(1) addressDown_facts(2)]
        loop_marketDown_buys_snek
  by (simp add: addressDown_facts)

text \<open>
  C7. Every swap an iteration hands to the swap executor carries an amount of at least
  1 ADA.
\<close>

theorem swap_amount_at_least_one:
  assumes "ExecuteDexSwap dir a u \<in> set (loop w)"
  shows "1 \<le> a"
  using assms by (rule loop_swap_amount)

theorem swap_amount_at_least_one_witness:
  "ExecuteDexSwap buy 100 snekUnit \<in> set (loop marketDownWorld) \<and> (1::real) \<le> 100
   \<and> ExecuteDexSwap buy (51 / 2) snekUnit \<in> set (loop walletWorld) \<and> (1::real) \<le> 51 / 2"
  using swap_amount_at_least_one [OF loop_marketDown_buys_snek]
        swap_amount_at_least_one [OF loop_wallet_buys_snek]
        loop_marketDown_buys_snek loop_wallet_buys_snek
  by simp

text \<open>
  C10. \<open>getTokenInfo\<close> hands its argument to the lookup by ticker. An argument that
  is no configured ticker gets the fallback configuration (category \<open>other\<close>, trade
  sizes 10 and 200); the result is never undefined, so no iteration logs the skip for
  a missing token configuration.
\<close>

theorem getTokenInfo_looks_up_by_ticker:
  "(getTokenConfigByTicker u = Some c \<longrightarrow> getTokenInfo u = Some c)
   \<and> (u \<notin> set (map ticker TRADING_TOKENS) \<longrightarrow>
        getTokenInfo u
        = Some \<lparr>unit = u, ticker = take 10 u @ ''...'', decimals = None,
                category = other, minTradeSize = Some 10, maxTradeSize = Some 200,
                profitTargets = Some \<lparr>quick = 0.10, medium = 0.20, long = 0.30\<rparr>,
                stopLoss = None, trailingStop = Some 0.05, maxHoldTime = None\<rparr>)
   \<and> getTokenInfo u \<noteq> None
   \<and> SkipNoTokenConfig x \<notin> set (loop w)"
proof (intro conjI impI)
  assume "getTokenConfigByTicker u = Some c"
  then show "getTokenInfo u = Some c" by (simp add: getTokenInfo_def)
next
  assume "u \<notin> set (map ticker TRADING_TOKENS)"
  then have "getTokenConfigByTicker u = None" by (rule getTokenConfigByTicker_None)
  then show "getTokenInfo u
        = Some \<lparr>unit = u, ticker = take 10 u @ ''...'', decimals = None,
                category = other, minTradeSize = Some 10, maxTradeSize = Some 200,
                profitTargets = Some \<lparr>quick = 0.10, medium = 0.20, long = 0.30\<rparr>,
                stopLoss = None, trailingStop = Some 0.05, maxHoldTime = None\<rparr>"
    by (simp add: getTokenInfo_def)
next
  show "getTokenInfo u \<noteq> None" by (rule getTokenInfo_not_None)
next
  show "SkipNoTokenConfig x \<notin> set (loop w)" by (rule loop_never_skips_for_config)
qed

theorem getTokenInfo_looks_up_by_ticker_witness:
  "snekUnit \<notin> set (map ticker TRADING_TOKENS)
   \<and> getTokenInfo snekUnit = Some snekTokenInfo
   \<and> category snekTokenInfo = other
   \<and> getTokenConfigByTicker ''SNEK'' = Some (TRADING_TOKENS ! 5)
   \<and> getTokenInfo ''SNEK'' = Some (TRADING_TOKENS ! 5)"
proof -
  have no_ticker: "snekUnit \<notin> set (map ticker TRADING_TOKENS)"
    by (simp add: TRADING_TOKENS_def snekUnit_def)
  have by_ticker: "getTokenConfigByTicker ''SNEK'' = Some (TRADING_TOKENS ! 5)"
    by (simp add: getTokenConfigByTicker_def TRADING_TOKENS_def)
  from getTokenInfo_looks_up_by_ticker [of snekUnit] no_ticker
  have "getTokenInfo snekUnit = Some snekTokenInfo"
    by (simp add: snekTokenInfo_def snekUnit_def)
  moreover from getTokenInfo_looks_up_by_ticker [of "''SNEK''" "TRADING_TOKENS ! 5"] by_ticker
  have "getTokenInfo ''SNEK'' = Some (TRADING_TOKENS ! 5)" by simp
  moreover have "category snekTokenInfo = other" by (simp add: snekTokenInfo_def)
  ultimately show ?thesis using no_ticker by_ticker by simp
qed

end
